theory Spec2Isabelle
  imports Complex_Main
begin

section \<open>The MCP time server: timezone resolution and time conversion\<close>

text \<open>
  The repository holds two variants of one server:
  \<^item> \<^verbatim>\<open>mcp_server_time_lambda.py\<close>, the original, whose tools look a timezone up inline
    (zoneinfo first, pytz second);
  \<^item> \<^verbatim>\<open>mcp_server_time_lambda_optimized.py\<close>, whose tools call \<^verbatim>\<open>get_timezone\<close>, a
    function memoised by \<^verbatim>\<open>functools.lru_cache(maxsize=256)\<close> in front of the
    module-level dictionary \<^verbatim>\<open>_timezone_cache\<close>.

  Both have a \<^verbatim>\<open>get_current_time\<close> and a \<^verbatim>\<open>convert_time\<close>. The functions of the optimized
  file keep their names here; those of the original file carry the suffix \<open>_orig\<close>.
  The lazy imports, \<^verbatim>\<open>get_timezone_metadata\<close> (which no tool calls) and the wiring of the
  server and the Lambda handler are left out.
\<close>

subsection \<open>Values of the Python standard library\<close>

text \<open>
  A \<^verbatim>\<open>timedelta\<close> is a whole number of microseconds; \<^verbatim>\<open>total_seconds()\<close> and the
  divisions by 3600 are floating point in Python and exact rationals here.
\<close>

type_synonym timedelta = int

definition total_seconds :: "timedelta \<Rightarrow> rat" where
  "total_seconds d = of_int d / 1000000"

text \<open>
  Truthiness of an optional \<^verbatim>\<open>timedelta\<close>, as \<^verbatim>\<open>if x\<close> and \<^verbatim>\<open>bool(x)\<close> test it:
  \<^verbatim>\<open>None\<close> is false and so is \<^verbatim>\<open>timedelta(0)\<close>.
\<close>

fun truthy :: "timedelta option \<Rightarrow> bool" where
  "truthy None = False"
| "truthy (Some d) = (d \<noteq> 0)"

text \<open>Truthiness of an optional string: \<^verbatim>\<open>None\<close> and the empty string are false.\<close>

fun truthy_str :: "string option \<Rightarrow> bool" where
  "truthy_str None = False"
| "truthy_str (Some s) = (s \<noteq> [])"

text \<open>
  A timezone object, as zoneinfo and pytz hand it out. The program uses four things of
  it: its identity (\<^verbatim>\<open>astimezone\<close> tests \<^verbatim>\<open>tz is mytz\<close>), its \<^verbatim>\<open>str()\<close>, and the offset
  and daylight-saving amount it reports, either for a wall-clock reading attached with
  \<^verbatim>\<open>replace(tzinfo=...)\<close> (fold 0) or for a UTC instant projected with \<^verbatim>\<open>fromutc\<close>.
  Readings and instants are microseconds since 1970-01-01T00:00:00.
\<close>

record tzinfo =
  obj_id :: nat
  tz_str :: string
  utcoffset_wall :: "int \<Rightarrow> timedelta"
  dst_wall :: "int \<Rightarrow> timedelta"
  utcoffset_utc :: "int \<Rightarrow> timedelta"
  dst_utc :: "int \<Rightarrow> timedelta"

text \<open>
  An aware \<^verbatim>\<open>datetime\<close>: the wall-clock reading, the timezone object, and the values that
  its \<^verbatim>\<open>utcoffset()\<close> and \<^verbatim>\<open>dst()\<close> return. The ISO-8601 text of the result records
  (\<^verbatim>\<open>isoformat()\<close>) renders the reading and the offset; the records below keep the
  \<open>datetime\<close> itself in those fields.
\<close>

record datetime =
  dt_wall :: int
  dt_tzinfo :: tzinfo
  dt_off :: timedelta
  dt_dst :: timedelta

definition utcoffset :: "datetime \<Rightarrow> timedelta option" where
  "utcoffset d = Some (dt_off d)"

definition dst_of :: "datetime \<Rightarrow> timedelta option" where
  "dst_of d = Some (dt_dst d)"

definition replace_tzinfo :: "int \<Rightarrow> tzinfo \<Rightarrow> datetime" where
  "replace_tzinfo w z =
     \<lparr>dt_wall = w, dt_tzinfo = z, dt_off = utcoffset_wall z w, dt_dst = dst_wall z w\<rparr>"

definition fromutc :: "tzinfo \<Rightarrow> int \<Rightarrow> datetime" where
  "fromutc z u =
     \<lparr>dt_wall = u + utcoffset_utc z u, dt_tzinfo = z,
      dt_off = utcoffset_utc z u, dt_dst = dst_utc z u\<rparr>"

text \<open>\<^verbatim>\<open>datetime.now(tz)\<close>: the current instant \<open>u\<close>, projected into the zone.\<close>

definition datetime_now :: "int \<Rightarrow> tzinfo \<Rightarrow> datetime" where
  "datetime_now u z = fromutc z u"

text \<open>
  \<^verbatim>\<open>astimezone(tz)\<close> returns the datetime itself when \<^verbatim>\<open>tz\<close> is the object it already
  carries, and otherwise subtracts its own offset and projects the instant into \<^verbatim>\<open>tz\<close>.
\<close>

definition astimezone :: "datetime \<Rightarrow> tzinfo \<Rightarrow> datetime" where
  "astimezone d z =
     (if obj_id z = obj_id (dt_tzinfo d) then d else fromutc z (dt_wall d - dt_off d))"

text \<open>\<^verbatim>\<open>timestamp()\<close> of an aware datetime: seconds from the epoch to its instant.\<close>

definition timestamp :: "datetime \<Rightarrow> rat" where
  "timestamp d = total_seconds (dt_wall d - dt_off d)"

text \<open>A \<^verbatim>\<open>datetime.time\<close>, and \<^verbatim>\<open>datetime.combine\<close> of a date (days since 1970-01-01) with it.\<close>

record time_of_day =
  t_hour :: nat
  t_minute :: nat
  t_second :: nat
  t_microsecond :: nat

definition combine :: "int \<Rightarrow> time_of_day \<Rightarrow> int" where
  "combine day t =
     day * 86400000000 +
     int (((t_hour t * 60 + t_minute t) * 60 + t_second t) * 1000000 + t_microsecond t)"

subsection \<open>The platform\<close>

text \<open>
  What the program reads from outside itself: the two timezone databases (a lookup that
  raises is \<open>None\<close>), pytz's UTC object, \<^verbatim>\<open>tzlocal.get_localzone_name()\<close> (\<open>None\<close> when the
  import or the call raises), the process environment, and \<^verbatim>\<open>time.fromisoformat\<close>
  (\<open>Inl msg\<close> when it raises \<^verbatim>\<open>ValueError(msg)\<close>).
\<close>

record platform =
  ZoneInfo :: "string \<Rightarrow> tzinfo option"
  pytz_timezone :: "string \<Rightarrow> tzinfo option"
  pytz_UTC :: tzinfo
  get_localzone_name :: "string option"
  environ :: "string \<Rightarrow> string option"
  fromisoformat :: "string \<Rightarrow> string + time_of_day"

datatype exn =
    ZoneInfoNotFoundError string
  | UnknownTimeZoneError string
  | ValueError string

subsection \<open>The original variant\<close>

definition get_local_timezone :: "platform \<Rightarrow> tzinfo" where
  "get_local_timezone P =
     (case ZoneInfo P (case environ P ''TZ'' of None \<Rightarrow> ''UTC'' | Some v \<Rightarrow> v) of
        Some z \<Rightarrow> z
      | None \<Rightarrow>
          (case get_localzone_name P of
             None \<Rightarrow> pytz_UTC P
           | Some n \<Rightarrow> (case pytz_timezone P n of Some z \<Rightarrow> z | None \<Rightarrow> pytz_UTC P)))"

definition local_timezone :: "platform \<Rightarrow> tzinfo" where
  "local_timezone P = get_local_timezone P"

record current_time_orig =
  timezone_o :: string
  iso8601_o :: datetime
  dst_o :: bool
  utc_offset_hours_o :: rat

text \<open>The lookup at the head of the original \<^verbatim>\<open>get_current_time\<close> (lines 32 to 42).\<close>

definition current_time_tz_orig :: "platform \<Rightarrow> string option \<Rightarrow> tzinfo" where
  "current_time_tz_orig P timezone =
     (if truthy_str timezone then
        (case ZoneInfo P (the timezone) of
           Some z \<Rightarrow> z
         | None \<Rightarrow>
             (case pytz_timezone P (the timezone) of
                Some z \<Rightarrow> z
              | None \<Rightarrow> local_timezone P))
      else local_timezone P)"

definition get_current_time_orig :: "platform \<Rightarrow> int \<Rightarrow> string option \<Rightarrow> current_time_orig" where
  "get_current_time_orig P clock timezone =
     (let tz = current_time_tz_orig P timezone;
          now = datetime_now clock tz
      in \<lparr>timezone_o = tz_str tz,
          iso8601_o = now,
          dst_o = truthy (dst_of now),
          utc_offset_hours_o =
            (if truthy (utcoffset now) then total_seconds (the (utcoffset now)) / 3600 else 0)\<rparr>)"

text \<open>
  The lookup of the original \<^verbatim>\<open>convert_time\<close> (lines 59 to 66): zoneinfo, then pytz, whose
  exception is not caught.
\<close>

definition convert_tz_orig :: "platform \<Rightarrow> string \<Rightarrow> exn + tzinfo" where
  "convert_tz_orig P name =
     (case ZoneInfo P name of
        Some z \<Rightarrow> Inr z
      | None \<Rightarrow>
          (case pytz_timezone P name of
             Some z \<Rightarrow> Inr z
           | None \<Rightarrow> Inl (UnknownTimeZoneError name)))"

record conversion_orig =
  source_time_o :: datetime
  source_timezone_o :: string
  target_time_o :: datetime
  target_timezone_o :: string
  dst_source_o :: bool
  dst_target_o :: bool
  utc_offset_diff_hours_o :: "rat option"

definition convert_time_orig ::
  "platform \<Rightarrow> int \<Rightarrow> string \<Rightarrow> string \<Rightarrow> string \<Rightarrow> exn + conversion_orig" where
  "convert_time_orig P today source_timezone time target_timezone =
     (case convert_tz_orig P source_timezone of
        Inl e \<Rightarrow> Inl e
      | Inr src_tz \<Rightarrow>
          (case convert_tz_orig P target_timezone of
             Inl e \<Rightarrow> Inl e
           | Inr tgt_tz \<Rightarrow>
               (case fromisoformat P time of
                  Inl msg \<Rightarrow> Inl (ValueError msg)
                | Inr t \<Rightarrow>
                    (let dt_naive = combine today t;
                         dt_src = replace_tzinfo dt_naive src_tz;
                         dt_tgt = astimezone dt_src tgt_tz
                     in Inr \<lparr>source_time_o = dt_src,
                             source_timezone_o = tz_str src_tz,
                             target_time_o = dt_tgt,
                             target_timezone_o = tz_str tgt_tz,
                             dst_source_o = truthy (dst_of dt_src),
                             dst_target_o = truthy (dst_of dt_tgt),
                             utc_offset_diff_hours_o =
                               (if truthy (utcoffset dt_tgt) \<and> truthy (utcoffset dt_src)
                                then Some ((total_seconds (the (utcoffset dt_tgt)) -
                                            total_seconds (the (utcoffset dt_src))) / 3600)
                                else None)\<rparr>))))"

subsection \<open>The optimized variant\<close>

definition LOCAL_TZ_NAME :: "platform \<Rightarrow> string" where
  "LOCAL_TZ_NAME P = (case environ P ''TZ'' of None \<Rightarrow> ''UTC'' | Some v \<Rightarrow> v)"

text \<open>
  The process state: the dictionary \<^verbatim>\<open>_timezone_cache\<close>, and the memo table that
  \<^verbatim>\<open>lru_cache\<close> keeps for \<^verbatim>\<open>get_timezone\<close>, keyed by the argument as passed, most recently
  used entry first.
\<close>

record state =
  timezone_cache :: "string \<Rightarrow> tzinfo option"
  lru :: "(string option \<times> tzinfo) list"

definition init_state :: state where
  "init_state = \<lparr>timezone_cache = (\<lambda>k. None), lru = []\<rparr>"

definition maxsize :: nat where
  "maxsize = 256"

text \<open>The body of \<^verbatim>\<open>get_timezone\<close> (lines 52 to 63), on the dictionary.\<close>

definition get_timezone_body ::
  "platform \<Rightarrow> (string \<Rightarrow> tzinfo option) \<Rightarrow> string option
     \<Rightarrow> (exn + tzinfo) \<times> (string \<Rightarrow> tzinfo option)" where
  "get_timezone_body P cache arg =
     (let tz_name = (if truthy_str arg then the arg else LOCAL_TZ_NAME P) in
      case cache tz_name of
        Some z \<Rightarrow> (Inr z, cache)
      | None \<Rightarrow>
          (case ZoneInfo P tz_name of
             Some z \<Rightarrow> (Inr z, cache(tz_name \<mapsto> z))
           | None \<Rightarrow>
               (case ZoneInfo P ''UTC'' of
                  Some u \<Rightarrow> (Inr u, cache(tz_name \<mapsto> u))
                | None \<Rightarrow> (Inl (ZoneInfoNotFoundError ''UTC''), cache))))"

text \<open>
  \<^verbatim>\<open>get_timezone\<close> as decorated: a hit in the memo table returns the stored object and
  makes the entry the most recent; a miss runs the body, and stores the result unless
  the body raised, dropping the least recently used entry when the table is full.
\<close>

definition get_timezone :: "platform \<Rightarrow> state \<Rightarrow> string option \<Rightarrow> (exn + tzinfo) \<times> state" where
  "get_timezone P s arg =
     (case map_of (lru s) arg of
        Some z \<Rightarrow> (Inr z, s\<lparr>lru := (arg, z) # filter (\<lambda>p. fst p \<noteq> arg) (lru s)\<rparr>)
      | None \<Rightarrow>
          (case get_timezone_body P (timezone_cache s) arg of
             (Inl e, c) \<Rightarrow> (Inl e, s\<lparr>timezone_cache := c\<rparr>)
           | (Inr z, c) \<Rightarrow>
               (Inr z,
                \<lparr>timezone_cache = c,
                 lru = (arg, z) # (if maxsize \<le> length (lru s) then butlast (lru s) else lru s)\<rparr>)))"

record current_time =
  timezone :: string
  iso8601 :: datetime
  dst :: bool
  utc_offset_hours :: rat
  timestamp_f :: rat

definition get_current_time ::
  "platform \<Rightarrow> int \<Rightarrow> state \<Rightarrow> string option \<Rightarrow> (exn + current_time) \<times> state" where
  "get_current_time P clock s tzarg =
     (case get_timezone P s (if truthy_str tzarg then tzarg else Some (LOCAL_TZ_NAME P)) of
        (Inl e, s') \<Rightarrow> (Inl e, s')
      | (Inr tz, s') \<Rightarrow>
          (let now = datetime_now clock tz;
               utc_offset = utcoffset now
           in (Inr \<lparr>timezone = tz_str tz,
                    iso8601 = now,
                    dst = truthy (dst_of now),
                    utc_offset_hours =
                      (if truthy utc_offset then total_seconds (the utc_offset) / 3600 else 0),
                    timestamp_f = timestamp now\<rparr>, s')))"

record conversion =
  source_time :: datetime
  source_timezone :: string
  target_time :: datetime
  target_timezone :: string
  dst_source :: bool
  dst_target :: bool
  utc_offset_diff_hours :: "rat option"
  time_difference_seconds :: rat

record invalid_input =
  error :: string
  details :: string

datatype reply = Converted conversion | Invalid invalid_input

text \<open>The \<^verbatim>\<open>try\<close> block of \<^verbatim>\<open>convert_time\<close> with its \<^verbatim>\<open>except ValueError\<close> (lines 108 to 133).\<close>

definition convert_time_try :: "platform \<Rightarrow> int \<Rightarrow> string \<Rightarrow> tzinfo \<Rightarrow> tzinfo \<Rightarrow> reply" where
  "convert_time_try P today time src_tz tgt_tz =
     (case fromisoformat P time of
        Inl msg \<Rightarrow>
          Invalid
            \<lparr>error = ''Invalid time format: '' @ time @ ''. Expected HH:MM format.'',
             details = msg\<rparr>
      | Inr t \<Rightarrow>
          (let dt_naive = combine today t;
               dt_src = replace_tzinfo dt_naive src_tz;
               dt_tgt = astimezone dt_src tgt_tz;
               src_offset = utcoffset dt_src;
               tgt_offset = utcoffset dt_tgt
           in Converted
                \<lparr>source_time = dt_src,
                 source_timezone = tz_str src_tz,
                 target_time = dt_tgt,
                 target_timezone = tz_str tgt_tz,
                 dst_source = truthy (dst_of dt_src),
                 dst_target = truthy (dst_of dt_tgt),
                 utc_offset_diff_hours =
                   (if truthy tgt_offset \<and> truthy src_offset
                    then Some ((total_seconds (the tgt_offset) -
                                total_seconds (the src_offset)) / 3600)
                    else None),
                 time_difference_seconds = timestamp dt_tgt - timestamp dt_src\<rparr>))"

definition convert_time ::
  "platform \<Rightarrow> int \<Rightarrow> state \<Rightarrow> string \<Rightarrow> string \<Rightarrow> string \<Rightarrow> (exn + reply) \<times> state" where
  "convert_time P today s src time tgt =
     (case get_timezone P s (Some src) of
        (Inl e, s1) \<Rightarrow> (Inl e, s1)
      | (Inr src_tz, s1) \<Rightarrow>
          (case get_timezone P s1 (Some tgt) of
             (Inl e, s2) \<Rightarrow> (Inl e, s2)
           | (Inr tgt_tz, s2) \<Rightarrow> (Inr (convert_time_try P today time src_tz tgt_tz), s2)))"

text \<open>A run of the process: the calls of \<^verbatim>\<open>get_timezone\<close> it makes, in order.\<close>

definition run :: "platform \<Rightarrow> state \<Rightarrow> string option list \<Rightarrow> state" where
  "run P s args = foldl (\<lambda>s a. snd (get_timezone P s a)) s args"

subsection \<open>What a resolution amounts to\<close>

text \<open>
  The name \<^verbatim>\<open>get_timezone\<close> works on once the default has been put in for a missing or
  empty argument, and what the body stores for a name it has not seen: the zone of that
  name, or else the zone UTC, or else the exception of the second lookup.
\<close>

definition effective :: "platform \<Rightarrow> string option \<Rightarrow> string" where
  "effective P arg = (if truthy_str arg then the arg else LOCAL_TZ_NAME P)"

definition resolve_name :: "platform \<Rightarrow> string \<Rightarrow> exn + tzinfo" where
  "resolve_name P k =
     (case ZoneInfo P k of
        Some z \<Rightarrow> Inr z
      | None \<Rightarrow>
          (case ZoneInfo P ''UTC'' of
             Some u \<Rightarrow> Inr u
           | None \<Rightarrow> Inl (ZoneInfoNotFoundError ''UTC'')))"

text \<open>
  The invariant of the process state: the dictionary holds what the body stores, the memo
  table agrees with the dictionary, has one entry for a key and at most \<open>maxsize\<close> entries.
\<close>

definition cache_ok :: "platform \<Rightarrow> state \<Rightarrow> bool" where
  "cache_ok P s \<longleftrightarrow>
     (\<forall>k z. timezone_cache s k = Some z \<longrightarrow> resolve_name P k = Inr z) \<and>
     (\<forall>a z. (a, z) \<in> set (lru s) \<longrightarrow> timezone_cache s (effective P a) = Some z) \<and>
     distinct (map fst (lru s)) \<and> length (lru s) \<le> maxsize"

subsection \<open>A platform to evaluate on\<close>

text \<open>
  Three zones of the IANA database, with the rules in force during 2026: UTC,
  Asia/Seoul (nine hours ahead, no daylight saving) and America/New_York (five hours
  behind; four from 2026-03-08T07:00Z until 2026-11-01T06:00Z, that is for wall-clock
  readings from 03:00 on 8 March until 02:00 on 1 November). Day 20520 is 2026-03-08,
  day 20758 is 2026-11-01 and day 20761 is 2026-11-04.
\<close>

definition hours :: "int \<Rightarrow> timedelta" where
  "hours n = n * 3600000000"

definition at_clock :: "int \<Rightarrow> int \<Rightarrow> int" where
  "at_clock day h = day * 86400000000 + hours h"

definition zone_UTC :: tzinfo where
  "zone_UTC =
     \<lparr>obj_id = 1, tz_str = ''UTC'',
      utcoffset_wall = (\<lambda>w. 0), dst_wall = (\<lambda>w. 0),
      utcoffset_utc = (\<lambda>u. 0), dst_utc = (\<lambda>u. 0)\<rparr>"

definition zone_Seoul :: tzinfo where
  "zone_Seoul =
     \<lparr>obj_id = 2, tz_str = ''Asia/Seoul'',
      utcoffset_wall = (\<lambda>w. hours 9), dst_wall = (\<lambda>w. 0),
      utcoffset_utc = (\<lambda>u. hours 9), dst_utc = (\<lambda>u. 0)\<rparr>"

definition zone_New_York :: tzinfo where
  "zone_New_York =
     \<lparr>obj_id = 3, tz_str = ''America/New_York'',
      utcoffset_wall =
        (\<lambda>w. if at_clock 20520 3 \<le> w \<and> w < at_clock 20758 2 then hours (- 4) else hours (- 5)),
      dst_wall =
        (\<lambda>w. if at_clock 20520 3 \<le> w \<and> w < at_clock 20758 2 then hours 1 else 0),
      utcoffset_utc =
        (\<lambda>u. if at_clock 20520 7 \<le> u \<and> u < at_clock 20758 6 then hours (- 4) else hours (- 5)),
      dst_utc =
        (\<lambda>u. if at_clock 20520 7 \<le> u \<and> u < at_clock 20758 6 then hours 1 else 0)\<rparr>"

definition zone_pytz_UTC :: tzinfo where
  "zone_pytz_UTC = zone_UTC\<lparr>obj_id := 4\<rparr>"

text \<open>
  A parser to stand for \<^verbatim>\<open>time.fromisoformat\<close> on the strings evaluated below, where the
  two agree: it reads the forms \<^verbatim>\<open>HH\<close>, \<^verbatim>\<open>HH:MM\<close> and \<^verbatim>\<open>HH:MM:SS\<close> of two decimal digits
  each, within the ranges \<^verbatim>\<open>datetime.time\<close> enforces, and rejects everything else, with
  messages after CPython's. Python's parser reads further forms (fractions of a second,
  offsets, and the basic format), which nothing below depends on.
\<close>

definition digit_val :: "char \<Rightarrow> nat option" where
  "digit_val c =
     (let n = (of_char c :: nat) in if 48 \<le> n \<and> n \<le> 57 then Some (n - 48) else None)"

definition two_digits :: "char \<Rightarrow> char \<Rightarrow> nat option" where
  "two_digits a b =
     (case (digit_val a, digit_val b) of
        (Some x, Some y) \<Rightarrow> Some (10 * x + y)
      | _ \<Rightarrow> None)"

definition invalid_isoformat :: "string \<Rightarrow> string" where
  "invalid_isoformat s = ''Invalid isoformat string: '' @ [CHR 0x27] @ s @ [CHR 0x27]"

definition make_time :: "string \<Rightarrow> nat option \<Rightarrow> nat option \<Rightarrow> nat option \<Rightarrow> string + time_of_day" where
  "make_time s h m sec =
     (case (h, m, sec) of
        (Some h', Some m', Some s') \<Rightarrow>
          (if 24 \<le> h' then Inl ''hour must be in 0..23''
           else if 60 \<le> m' then Inl ''minute must be in 0..59''
           else if 60 \<le> s' then Inl ''second must be in 0..59''
           else Inr \<lparr>t_hour = h', t_minute = m', t_second = s', t_microsecond = 0\<rparr>)
      | _ \<Rightarrow> Inl (invalid_isoformat s))"

definition iso_time :: "string \<Rightarrow> string + time_of_day" where
  "iso_time s =
     (case s of
        [a, b] \<Rightarrow> make_time s (two_digits a b) (Some 0) (Some 0)
      | [a, b, p, c, d] \<Rightarrow>
          (if p = CHR '':'' then make_time s (two_digits a b) (two_digits c d) (Some 0)
           else Inl (invalid_isoformat s))
      | [a, b, p, c, d, q, e, f] \<Rightarrow>
          (if p = CHR '':'' \<and> q = CHR '':''
           then make_time s (two_digits a b) (two_digits c d) (two_digits e f)
           else Inl (invalid_isoformat s))
      | _ \<Rightarrow> Inl (invalid_isoformat s))"

text \<open>The platform with \<^verbatim>\<open>TZ\<close> unset, and the same platform with \<^verbatim>\<open>TZ=Asia/Seoul\<close>.\<close>

definition sample_platform :: platform where
  "sample_platform =
     \<lparr>ZoneInfo =
        (\<lambda>k. if k = ''UTC'' then Some zone_UTC
             else if k = ''Asia/Seoul'' then Some zone_Seoul
             else if k = ''America/New_York'' then Some zone_New_York
             else None),
      pytz_timezone = (\<lambda>k. if k = ''UTC'' then Some zone_pytz_UTC else None),
      pytz_UTC = zone_pytz_UTC,
      get_localzone_name = None,
      environ = (\<lambda>k. None),
      fromisoformat = iso_time\<rparr>"

definition seoul_platform :: platform where
  "seoul_platform =
     sample_platform\<lparr>environ := (\<lambda>k. if k = ''TZ'' then Some ''Asia/Seoul'' else None)\<rparr>"

text \<open>
  Three more: the platform with \<^verbatim>\<open>TZ\<close> set to a name no database knows; the platform
  whose zoneinfo knows UTC alone; and a platform whose zoneinfo has no data at all, where
  tzlocal reports Asia/Seoul and pytz knows that zone (for a reading attached with
  \<^verbatim>\<open>replace\<close> a pytz zone reports its local mean time, 8:28 ahead for Seoul).
\<close>

definition bad_tz_platform :: platform where
  "bad_tz_platform =
     sample_platform\<lparr>environ := (\<lambda>k. if k = ''TZ'' then Some ''Mars/Phobos'' else None)\<rparr>"

definition utc_only_platform :: platform where
  "utc_only_platform =
     sample_platform\<lparr>ZoneInfo := (\<lambda>k. if k = ''UTC'' then Some zone_UTC else None)\<rparr>"

definition zone_pytz_Seoul :: tzinfo where
  "zone_pytz_Seoul =
     \<lparr>obj_id = 5, tz_str = ''Asia/Seoul'',
      utcoffset_wall = (\<lambda>w. 508 * 60000000), dst_wall = (\<lambda>w. 0),
      utcoffset_utc = (\<lambda>u. hours 9), dst_utc = (\<lambda>u. 0)\<rparr>"

definition no_tzdata_platform :: platform where
  "no_tzdata_platform =
     sample_platform
       \<lparr>ZoneInfo := (\<lambda>k. None),
        pytz_timezone :=
          (\<lambda>k. if k = ''UTC'' then Some zone_pytz_UTC
               else if k = ''Asia/Seoul'' then Some zone_pytz_Seoul
               else None),
        get_localzone_name := Some ''Asia/Seoul''\<rparr>"

section \<open>The resolver state\<close>

text \<open>
  From a state that satisfies the invariant, \<^verbatim>\<open>get_timezone\<close> returns what \<open>resolve_name\<close>
  gives for the effective name, whether the memo table or the dictionary answers, and
  leaves a state that satisfies the invariant.
\<close>

lemma cache_ok_init: "cache_ok P init_state"
  by (simp add: cache_ok_def init_state_def)

lemma body_fresh:
  "cache (effective P a) = None \<Longrightarrow>
   get_timezone_body P cache a =
     (case resolve_name P (effective P a) of
        Inl e \<Rightarrow> (Inl e, cache)
      | Inr z \<Rightarrow> (Inr z, cache(effective P a \<mapsto> z)))"
  by (simp add: get_timezone_body_def effective_def resolve_name_def split: option.splits)

lemma body_known:
  "cache (effective P a) = Some z \<Longrightarrow> get_timezone_body P cache a = (Inr z, cache)"
  by (simp add: get_timezone_body_def effective_def)

lemma hit_step:
  assumes ok: "cache_ok P s" and hit: "map_of (lru s) a = Some z"
  shows "fst (get_timezone P s a) = resolve_name P (effective P a)"
    and "cache_ok P (snd (get_timezone P s a))"
    and "timezone_cache (snd (get_timezone P s a)) = timezone_cache s"
proof -
  have mem: "(a, z) \<in> set (lru s)" using hit by (rule map_of_SomeD)
  have c: "timezone_cache s (effective P a) = Some z" using ok mem by (auto simp: cache_ok_def)
  have r: "resolve_name P (effective P a) = Inr z" using ok c by (auto simp: cache_ok_def)
  show "fst (get_timezone P s a) = resolve_name P (effective P a)"
    using hit r by (simp add: get_timezone_def)
  show "timezone_cache (snd (get_timezone P s a)) = timezone_cache s"
    using hit by (simp add: get_timezone_def)
  have len: "length (filter (\<lambda>p. fst p \<noteq> a) (lru s)) < length (lru s)"
    using mem by (intro length_filter_less[where x = "(a, z)"]) auto
  have d: "distinct (map fst (filter (\<lambda>p. fst p \<noteq> a) (lru s)))"
    using ok by (simp add: cache_ok_def distinct_map_filter)
  show "cache_ok P (snd (get_timezone P s a))"
    using ok hit c len d by (auto simp: get_timezone_def cache_ok_def)
qed

lemma miss_step:
  assumes ok: "cache_ok P s" and miss: "map_of (lru s) a = None"
  shows "fst (get_timezone P s a) = resolve_name P (effective P a)"
    and "cache_ok P (snd (get_timezone P s a))"
proof -
  let ?k = "effective P a"
  let ?l = "if maxsize \<le> length (lru s) then butlast (lru s) else lru s"
  have nokey: "a \<notin> fst ` set (lru s)" using miss by (simp add: map_of_eq_None_iff)
  have sub: "set ?l \<subseteq> set (lru s)" by (auto dest: in_set_butlastD)
  have dl: "distinct (map fst ?l)"
    using ok by (auto simp: cache_ok_def map_butlast distinct_butlast)
  have ll: "Suc (length ?l) \<le> maxsize"
    using ok by (auto simp: cache_ok_def maxsize_def)
  have na: "a \<notin> fst ` set ?l" using nokey sub by auto
  show "fst (get_timezone P s a) = resolve_name P (effective P a)"
  proof (cases "timezone_cache s ?k")
    case None
    then show ?thesis using miss
      by (simp add: get_timezone_def body_fresh split: sum.splits)
  next
    case (Some z)
    moreover have "resolve_name P ?k = Inr z" using ok Some by (auto simp: cache_ok_def)
    ultimately show ?thesis using miss by (simp add: get_timezone_def body_known)
  qed
  show "cache_ok P (snd (get_timezone P s a))"
  proof (cases "timezone_cache s ?k")
    case (Some z)
    have "snd (get_timezone P s a) = \<lparr>timezone_cache = timezone_cache s, lru = (a, z) # ?l\<rparr>"
      using miss Some by (simp add: get_timezone_def body_known)
    moreover have "cache_ok P \<lparr>timezone_cache = timezone_cache s, lru = (a, z) # ?l\<rparr>"
      using ok Some sub dl ll na unfolding cache_ok_def by (auto simp del: One_nat_def)
    ultimately show ?thesis by simp
  next
    case None
    show ?thesis
    proof (cases "resolve_name P ?k")
      case (Inl e)
      have "snd (get_timezone P s a) = s"
        using miss None Inl by (simp add: get_timezone_def body_fresh)
      then show ?thesis using ok by simp
    next
      case (Inr z)
      have st: "snd (get_timezone P s a) =
          \<lparr>timezone_cache = (timezone_cache s)(?k \<mapsto> z), lru = (a, z) # ?l\<rparr>"
        using miss None Inr by (simp add: get_timezone_def body_fresh)
      have old: "\<And>a' z'. (a', z') \<in> set ?l \<Longrightarrow> effective P a' \<noteq> ?k"
      proof
        fix a' z' assume m: "(a', z') \<in> set ?l" and e: "effective P a' = ?k"
        from m sub have "(a', z') \<in> set (lru s)" by auto
        with ok have "timezone_cache s (effective P a') = Some z'" by (auto simp: cache_ok_def)
        with e None show False by simp
      qed
      have "cache_ok P \<lparr>timezone_cache = (timezone_cache s)(?k \<mapsto> z), lru = (a, z) # ?l\<rparr>"
        unfolding cache_ok_def
      proof (intro conjI allI impI)
        fix k z' assume "timezone_cache \<lparr>timezone_cache = (timezone_cache s)(?k \<mapsto> z), lru = (a, z) # ?l\<rparr> k = Some z'"
        then show "resolve_name P k = Inr z'"
          using ok Inr by (auto simp: cache_ok_def split: if_splits)
      next
        fix a' z' assume "(a', z') \<in> set (lru \<lparr>timezone_cache = (timezone_cache s)(?k \<mapsto> z), lru = (a, z) # ?l\<rparr>)"
        then have "(a', z') = (a, z) \<or> (a', z') \<in> set ?l" by simp
        then show "timezone_cache \<lparr>timezone_cache = (timezone_cache s)(?k \<mapsto> z), lru = (a, z) # ?l\<rparr> (effective P a') = Some z'"
        proof
          assume "(a', z') = (a, z)" then show ?thesis by simp
        next
          assume m: "(a', z') \<in> set ?l"
          then have "effective P a' \<noteq> ?k" by (rule old)
          moreover from m sub ok have "timezone_cache s (effective P a') = Some z'"
            by (auto simp: cache_ok_def)
          ultimately show ?thesis by simp
        qed
      next
        show "distinct (map fst (lru \<lparr>timezone_cache = (timezone_cache s)(?k \<mapsto> z), lru = (a, z) # ?l\<rparr>))"
          using dl na by simp
      next
        show "length (lru \<lparr>timezone_cache = (timezone_cache s)(?k \<mapsto> z), lru = (a, z) # ?l\<rparr>) \<le> maxsize"
          using ll by simp
      qed
      with st show ?thesis by simp
    qed
  qed
qed

lemma get_timezone_outcome:
  "cache_ok P s \<Longrightarrow> fst (get_timezone P s a) = resolve_name P (effective P a)"
  by (cases "map_of (lru s) a") (simp_all add: hit_step(1) miss_step(1))

lemma get_timezone_keeps_ok:
  "cache_ok P s \<Longrightarrow> cache_ok P (snd (get_timezone P s a))"
  by (cases "map_of (lru s) a") (simp_all add: hit_step(2) miss_step(2))

lemma run_Nil: "run P s [] = s"
  by (simp add: run_def)

lemma run_Cons: "run P s (a # as) = run P (snd (get_timezone P s a)) as"
  by (simp add: run_def)

lemma run_keeps_ok: "cache_ok P s \<Longrightarrow> cache_ok P (run P s as)"
  by (induction as arbitrary: s) (simp_all add: run_Nil run_Cons get_timezone_keeps_ok)

lemma reachable_ok: "cache_ok P (run P init_state as)"
  by (rule run_keeps_ok) (rule cache_ok_init)


lemma get_timezone_persists:
  "timezone_cache s k = Some z \<Longrightarrow> timezone_cache (snd (get_timezone P s a)) k = Some z"
  by (auto simp: get_timezone_def get_timezone_body_def Let_def
      split: option.splits sum.splits prod.splits if_splits)

lemma run_persists:
  "timezone_cache s k = Some z \<Longrightarrow> timezone_cache (run P s as) k = Some z"
  by (induction as arbitrary: s) (simp_all add: run_Nil run_Cons get_timezone_persists)

lemma run_append: "run P s (as @ bs) = run P (run P s as) bs"
  by (simp add: run_def)

lemma resolve_name_with_UTC:
  "ZoneInfo P ''UTC'' = Some u \<Longrightarrow>
   resolve_name P k = Inr (case ZoneInfo P k of Some z \<Rightarrow> z | None \<Rightarrow> u)"
  by (simp add: resolve_name_def split: option.splits)

lemma get_timezone_dom:
  assumes utc: "ZoneInfo P ''UTC'' = Some u" and ok: "cache_ok P s"
  shows "dom (timezone_cache (snd (get_timezone P s a))) =
         insert (effective P a) (dom (timezone_cache s))"
proof (cases "map_of (lru s) a")
  case (Some z)
  then have "(a, z) \<in> set (lru s)" by (rule map_of_SomeD)
  with ok have "timezone_cache s (effective P a) = Some z" by (auto simp: cache_ok_def)
  then have "effective P a \<in> dom (timezone_cache s)" by auto
  moreover have "timezone_cache (snd (get_timezone P s a)) = timezone_cache s"
    using ok Some by (rule hit_step(3))
  ultimately show ?thesis by auto
next
  case None
  show ?thesis
  proof (cases "timezone_cache s (effective P a)")
    case (Some z)
    then have "timezone_cache (snd (get_timezone P s a)) = timezone_cache s"
      using None by (simp add: get_timezone_def body_known)
    with Some show ?thesis by auto
  next
    case cn: None
    obtain z where "resolve_name P (effective P a) = Inr z"
      using resolve_name_with_UTC[OF utc] by blast
    then have "timezone_cache (snd (get_timezone P s a)) = (timezone_cache s)(effective P a \<mapsto> z)"
      using None cn by (simp add: get_timezone_def body_fresh)
    then show ?thesis by simp
  qed
qed

lemma run_dom:
  assumes utc: "ZoneInfo P ''UTC'' = Some u"
  shows "cache_ok P s \<Longrightarrow>
         dom (timezone_cache (run P s as)) = dom (timezone_cache s) \<union> effective P ` set as"
proof (induction as arbitrary: s)
  case Nil
  then show ?case by (simp add: run_Nil)
next
  case (Cons a as)
  have "cache_ok P (snd (get_timezone P s a))" using Cons.prems by (rule get_timezone_keeps_ok)
  from Cons.IH[OF this] show ?case
    by (simp add: run_Cons get_timezone_dom[OF utc Cons.prems])
qed

lemma convert_time_outcome:
  assumes ok: "cache_ok P s"
  shows "fst (convert_time P today s src time tgt) =
     (case resolve_name P (effective P (Some src)) of
        Inl e \<Rightarrow> Inl e
      | Inr src_tz \<Rightarrow>
          (case resolve_name P (effective P (Some tgt)) of
             Inl e \<Rightarrow> Inl e
           | Inr tgt_tz \<Rightarrow> Inr (convert_time_try P today time src_tz tgt_tz)))"
proof -
  obtain r1 s1 where g1: "get_timezone P s (Some src) = (r1, s1)" by (cases "get_timezone P s (Some src)")
  have r1: "r1 = resolve_name P (effective P (Some src))"
    using get_timezone_outcome[OF ok, of "Some src"] g1 by simp
  have ok1: "cache_ok P s1" using get_timezone_keeps_ok[OF ok, of "Some src"] g1 by simp
  obtain r2 s2 where g2: "get_timezone P s1 (Some tgt) = (r2, s2)" by (cases "get_timezone P s1 (Some tgt)")
  have r2: "r2 = resolve_name P (effective P (Some tgt))"
    using get_timezone_outcome[OF ok1, of "Some tgt"] g2 by simp
  show ?thesis
  proof (cases "resolve_name P (effective P (Some src))")
    case (Inl e)
    then show ?thesis using g1 r1 by (simp add: convert_time_def)
  next
    case z1: (Inr z1)
    show ?thesis
    proof (cases "resolve_name P (effective P (Some tgt))")
      case (Inl e)
      then show ?thesis using g1 r1 g2 r2 z1 by (simp add: convert_time_def)
    next
      case (Inr z2)
      then show ?thesis using g1 r1 g2 r2 z1 by (simp add: convert_time_def)
    qed
  qed
qed

lemma get_current_time_outcome:
  assumes ok: "cache_ok P s"
  shows "fst (get_current_time P clock s tzarg) =
     (case resolve_name P (effective P tzarg) of
        Inl e \<Rightarrow> Inl e
      | Inr tz \<Rightarrow>
          Inr \<lparr>timezone = tz_str tz,
               iso8601 = datetime_now clock tz,
               dst = truthy (dst_of (datetime_now clock tz)),
               utc_offset_hours =
                 (if truthy (utcoffset (datetime_now clock tz))
                  then total_seconds (the (utcoffset (datetime_now clock tz))) / 3600 else 0),
               timestamp_f = timestamp (datetime_now clock tz)\<rparr>)"
proof -
  let ?arg = "if truthy_str tzarg then tzarg else Some (LOCAL_TZ_NAME P)"
  have e: "effective P ?arg = effective P tzarg"
    by (cases tzarg) (auto simp: effective_def)
  obtain r1 s1 where g1: "get_timezone P s ?arg = (r1, s1)" by (cases "get_timezone P s ?arg")
  have r1: "r1 = resolve_name P (effective P tzarg)"
    using get_timezone_outcome[OF ok, of ?arg] g1 e by simp
  show ?thesis
  proof (cases "resolve_name P (effective P tzarg)")
    case (Inl e)
    then show ?thesis using g1 r1 by (simp add: get_current_time_def)
  next
    case (Inr z)
    then show ?thesis using g1 r1 by (simp add: get_current_time_def Let_def)
  qed
qed

lemma time_difference_zero:
  "convert_time_try P today time src_tz tgt_tz = Converted r \<Longrightarrow> time_difference_seconds r = 0"
  by (auto simp: convert_time_try_def Let_def astimezone_def timestamp_def fromutc_def
      replace_tzinfo_def split: sum.splits)

lemma diff_hours_of_offsets:
  "convert_time_try P today time src_tz tgt_tz = Converted r \<Longrightarrow>
   utc_offset_diff_hours r =
     (if dt_off (target_time r) \<noteq> 0 \<and> dt_off (source_time r) \<noteq> 0
      then Some (total_seconds (dt_off (target_time r) - dt_off (source_time r)) / 3600)
      else None)"
  by (auto simp: convert_time_try_def Let_def utcoffset_def total_seconds_def diff_divide_distrib
      split: sum.splits)

lemma same_zone_same_time:
  "convert_time_try P today time z z = Converted r \<Longrightarrow> target_time r = source_time r"
  by (auto simp: convert_time_try_def Let_def astimezone_def replace_tzinfo_def split: sum.splits)

text \<open>
  The memo table holds the arguments of the calls that returned, each once, the most
  recently used first, and of these the first 256: so it does when every call returns,
  as on a platform whose zoneinfo can build UTC.
\<close>

lemma remdups_snoc: "remdups (xs @ [a]) = removeAll a (remdups xs) @ [a]"
  by (induction xs) auto

lemma rev_remdups_snoc: "rev (remdups (xs @ [a])) = a # removeAll a (rev (remdups xs))"
  by (simp add: remdups_snoc removeAll_filter_not_eq rev_filter)

lemma take_removeAll_inside:
  "distinct L \<Longrightarrow> a \<in> set (take (Suc n) L) \<Longrightarrow>
   take n (removeAll a L) = removeAll a (take (Suc n) L)"
proof (induction L arbitrary: n)
  case Nil
  then show ?case by simp
next
  case (Cons x L)
  show ?case
  proof (cases "x = a")
    case True
    with Cons.prems(1) have "a \<notin> set L" by simp
    then have "a \<notin> set (take n L)" by (blast dest: in_set_takeD)
    with \<open>a \<notin> set L\<close> have "removeAll a L = L" "removeAll a (take n L) = take n L"
      by (simp_all add: removeAll_id)
    with True show ?thesis by simp
  next
    case False
    with Cons.prems(2) have m: "a \<in> set (take n L)" by simp
    then obtain k where n: "n = Suc k" by (cases n) auto
    from Cons.IH[of k] Cons.prems(1) m n False show ?thesis by simp
  qed
qed

lemma take_removeAll_outside:
  "a \<notin> set (take (Suc n) L) \<Longrightarrow> take n (removeAll a L) = take n L"
proof (induction L arbitrary: n)
  case Nil
  then show ?case by simp
next
  case (Cons x L)
  then show ?case by (cases n) auto
qed

lemma keys_without:
  "map fst (filter (\<lambda>p. fst p \<noteq> a) xs) = removeAll a (map fst xs)"
  by (induction xs) auto

lemma hit_lru:
  "map_of (lru s) a = Some z \<Longrightarrow>
   map fst (lru (snd (get_timezone P s a))) = a # removeAll a (map fst (lru s))"
  by (simp add: get_timezone_def keys_without)

lemma miss_lru:
  "map_of (lru s) a = None \<Longrightarrow> fst (get_timezone P s a) = Inr z \<Longrightarrow>
   lru (snd (get_timezone P s a)) =
     (a, z) # (if maxsize \<le> length (lru s) then butlast (lru s) else lru s)"
  by (auto simp: get_timezone_def split: prod.splits sum.splits)

lemma lru_keys:
  assumes utc: "ZoneInfo P ''UTC'' = Some u"
  shows "map fst (lru (run P init_state calls)) = take maxsize (rev (remdups calls))"
proof (induction calls rule: rev_induct)
  case Nil
  then show ?case by (simp add: run_Nil init_state_def)
next
  case (snoc a calls)
  let ?s = "run P init_state calls"
  let ?L = "rev (remdups calls)"
  let ?K = "map fst (lru ?s)"
  have ok: "cache_ok P ?s" by (rule reachable_ok)
  have st: "run P init_state (calls @ [a]) = snd (get_timezone P ?s a)"
    by (simp add: run_append run_Cons run_Nil)
  have dL: "distinct ?L" by simp
  have K: "?K = take (Suc 255) ?L" using snoc.IH by (simp add: maxsize_def)
  have "length ?K = length (take (Suc 255) ?L)" by (simp only: K)
  then have lenK: "length (lru ?s) = min (length ?L) 256" by simp
  have goal: "take maxsize (rev (remdups (calls @ [a]))) = a # take 255 (removeAll a ?L)"
    by (simp add: rev_remdups_snoc maxsize_def)
  show ?case
  proof (cases "map_of (lru ?s) a")
    case (Some z)
    then have "(a, z) \<in> set (lru ?s)" by (rule map_of_SomeD)
    then have "a \<in> set ?K" by force
    then have "take 255 (removeAll a ?L) = removeAll a ?K"
      using take_removeAll_inside[OF dL, of a 255] K by simp
    then show ?thesis using hit_lru[OF Some, of P] by (simp only: st goal)
  next
    case None
    then have nk: "a \<notin> set ?K" by (simp add: map_of_eq_None_iff)
    obtain z where r: "fst (get_timezone P ?s a) = Inr z"
      using get_timezone_outcome[OF ok, of a] resolve_name_with_UTC[OF utc] by simp
    have t: "take 255 (removeAll a ?L) = take 255 ?L"
      using take_removeAll_outside[of a 255 ?L] nk K by simp
    have "map fst (if maxsize \<le> length (lru ?s) then butlast (lru ?s) else lru ?s) = take 255 ?L"
    proof (cases "maxsize \<le> length (lru ?s)")
      case True
      then have "256 \<le> length ?L" using lenK by (simp add: maxsize_def)
      then have "butlast (take 256 ?L) = take 255 ?L" by (simp add: butlast_take)
      with True K show ?thesis by (simp add: map_butlast)
    next
      case False
      then have "length ?L < 256" using lenK by (simp add: maxsize_def)
      with K False show ?thesis by simp
    qed
    then show ?thesis using miss_lru[OF None r] t by (simp only: st goal) simp
  qed
qed

text \<open>
  What a call that returned has stored, under the argument in the memo table and under
  the effective name in the dictionary, answers every later call with that argument,
  whatever the databases are by then: the later calls may run on another platform \<open>Q\<close>,
  which only has to have the default name of \<open>P\<close>, read once at import.
\<close>

lemma head_after:
  "fst (get_timezone P s a) = Inr h \<Longrightarrow> \<exists>rest. lru (snd (get_timezone P s a)) = (a, h) # rest"
  by (auto simp: get_timezone_def split: option.splits prod.splits sum.splits)

lemma stored_after:
  assumes ok: "cache_ok P s" and r: "fst (get_timezone P s a) = Inr h"
  shows "map_of (lru (snd (get_timezone P s a))) a = Some h"
    and "timezone_cache (snd (get_timezone P s a)) (effective P a) = Some h"
    and "\<forall>z. (a, z) \<in> set (lru (snd (get_timezone P s a))) \<longrightarrow> z = h"
proof -
  let ?s = "snd (get_timezone P s a)"
  from head_after[OF r] obtain rest where l: "lru ?s = (a, h) # rest" by blast
  have ok': "cache_ok P ?s" using ok by (rule get_timezone_keeps_ok)
  show "map_of (lru ?s) a = Some h" using l by simp
  have m: "(a, h) \<in> set (lru ?s)" using l by simp
  with ok' show "timezone_cache ?s (effective P a) = Some h" by (auto simp: cache_ok_def)
  have d: "distinct (map fst (lru ?s))" using ok' by (simp add: cache_ok_def)
  show "\<forall>z. (a, z) \<in> set (lru ?s) \<longrightarrow> z = h"
    using d m by (auto dest: eq_key_imp_eq_value)
qed

lemma effective_env: "LOCAL_TZ_NAME Q = LOCAL_TZ_NAME P \<Longrightarrow> effective Q a = effective P a"
  by (simp add: effective_def)

lemma stored_step:
  assumes env: "LOCAL_TZ_NAME Q = LOCAL_TZ_NAME P"
    and c: "timezone_cache t (effective P a) = Some h"
    and l: "\<forall>z. (a, z) \<in> set (lru t) \<longrightarrow> z = h"
  shows "timezone_cache (snd (get_timezone Q t b)) (effective P a) = Some h"
    and "\<forall>z. (a, z) \<in> set (lru (snd (get_timezone Q t b))) \<longrightarrow> z = h"
proof -
  show "timezone_cache (snd (get_timezone Q t b)) (effective P a) = Some h"
    using c by (rule get_timezone_persists)
  show "\<forall>z. (a, z) \<in> set (lru (snd (get_timezone Q t b))) \<longrightarrow> z = h"
  proof (cases "map_of (lru t) b")
    case (Some z')
    then have "(b, z') \<in> set (lru t)" by (rule map_of_SomeD)
    then show ?thesis using l Some by (auto simp: get_timezone_def)
  next
    case None
    show ?thesis
    proof (cases "b = a")
      case True
      have "timezone_cache t (effective Q a) = Some h" using c effective_env[OF env] by simp
      then have "get_timezone_body Q (timezone_cache t) a = (Inr h, timezone_cache t)"
        by (rule body_known)
      then show ?thesis using l None True
        by (auto simp: get_timezone_def dest: in_set_butlastD)
    next
      case False
      then show ?thesis using l None
        by (auto simp: get_timezone_def split: prod.splits sum.splits dest: in_set_butlastD)
    qed
  qed
qed

lemma stored_run:
  assumes env: "LOCAL_TZ_NAME Q = LOCAL_TZ_NAME P"
  shows "timezone_cache t (effective P a) = Some h \<Longrightarrow>
         \<forall>z. (a, z) \<in> set (lru t) \<longrightarrow> z = h \<Longrightarrow>
         timezone_cache (run Q t bs) (effective P a) = Some h \<and>
         (\<forall>z. (a, z) \<in> set (lru (run Q t bs)) \<longrightarrow> z = h)"
proof (induction bs arbitrary: t)
  case Nil
  then show ?case by (simp add: run_Nil)
next
  case (Cons b bs)
  have "timezone_cache (snd (get_timezone Q t b)) (effective P a) = Some h"
    and "\<forall>z. (a, z) \<in> set (lru (snd (get_timezone Q t b))) \<longrightarrow> z = h"
    using stored_step[OF env Cons.prems, of b] by blast+
  then have "timezone_cache (run Q (snd (get_timezone Q t b)) bs) (effective P a) = Some h \<and>
         (\<forall>z. (a, z) \<in> set (lru (run Q (snd (get_timezone Q t b)) bs)) \<longrightarrow> z = h)"
    by (rule Cons.IH)
  then show ?case by (simp add: run_Cons)
qed

lemma stored_answer:
  assumes env: "LOCAL_TZ_NAME Q = LOCAL_TZ_NAME P"
    and c: "timezone_cache t (effective P a) = Some h"
    and l: "\<forall>z. (a, z) \<in> set (lru t) \<longrightarrow> z = h"
  shows "fst (get_timezone Q t a) = Inr h"
proof (cases "map_of (lru t) a")
  case (Some z)
  then have "(a, z) \<in> set (lru t)" by (rule map_of_SomeD)
  with l have "z = h" by blast
  with Some show ?thesis by (simp add: get_timezone_def)
next
  case None
  have "timezone_cache t (effective Q a) = Some h" using c effective_env[OF env] by simp
  then have "get_timezone_body Q (timezone_cache t) a = (Inr h, timezone_cache t)"
    by (rule body_known)
  with None show ?thesis by (simp add: get_timezone_def)
qed

section \<open>Evaluating on the sample platform\<close>

lemma sample_ZoneInfo:
  "ZoneInfo sample_platform ''UTC'' = Some zone_UTC"
  "ZoneInfo sample_platform ''Asia/Seoul'' = Some zone_Seoul"
  "ZoneInfo sample_platform ''America/New_York'' = Some zone_New_York"
  "ZoneInfo sample_platform ''Mars/Phobos'' = None"
  "pytz_timezone sample_platform ''Mars/Phobos'' = None"
  "environ sample_platform ''TZ'' = None"
  "fromisoformat sample_platform = iso_time"
  by (simp_all add: sample_platform_def)

lemma seoul_ZoneInfo:
  "ZoneInfo seoul_platform = ZoneInfo sample_platform"
  "pytz_timezone seoul_platform = pytz_timezone sample_platform"
  "environ seoul_platform ''TZ'' = Some ''Asia/Seoul''"
  by (simp_all add: seoul_platform_def)

lemma utc_only_facts:
  "ZoneInfo utc_only_platform ''UTC'' = Some zone_UTC"
  "ZoneInfo utc_only_platform ''Asia/Seoul'' = None"
  "pytz_timezone utc_only_platform ''Asia/Seoul'' = None"
  "environ utc_only_platform = environ sample_platform"
  by (simp_all add: utc_only_platform_def sample_platform_def)

lemma bad_tz_facts:
  "ZoneInfo bad_tz_platform = ZoneInfo sample_platform"
  "pytz_timezone bad_tz_platform = pytz_timezone sample_platform"
  "environ bad_tz_platform ''TZ'' = Some ''Mars/Phobos''"
  "get_localzone_name bad_tz_platform = None"
  "pytz_UTC bad_tz_platform = zone_pytz_UTC"
  by (simp_all add: bad_tz_platform_def sample_platform_def)

lemma no_tzdata_facts:
  "ZoneInfo no_tzdata_platform k = None"
  "pytz_timezone no_tzdata_platform ''Asia/Seoul'' = Some zone_pytz_Seoul"
  "pytz_timezone no_tzdata_platform ''Mars/Phobos'' = None"
  "get_localzone_name no_tzdata_platform = Some ''Asia/Seoul''"
  "environ no_tzdata_platform ''TZ'' = None"
  by (simp_all add: no_tzdata_platform_def sample_platform_def)

lemma sample_LOCAL_TZ_NAME:
  "LOCAL_TZ_NAME sample_platform = ''UTC''"
  "LOCAL_TZ_NAME utc_only_platform = ''UTC''"
  "LOCAL_TZ_NAME no_tzdata_platform = ''UTC''"
  "LOCAL_TZ_NAME seoul_platform = ''Asia/Seoul''"
  "LOCAL_TZ_NAME bad_tz_platform = ''Mars/Phobos''"
  by (simp_all add: LOCAL_TZ_NAME_def sample_ZoneInfo utc_only_facts no_tzdata_facts
      seoul_ZoneInfo bad_tz_facts)

lemma sample_local_timezone:
  "local_timezone sample_platform = zone_UTC"
  "local_timezone utc_only_platform = zone_UTC"
  "local_timezone seoul_platform = zone_Seoul"
  "local_timezone bad_tz_platform = zone_pytz_UTC"
  "local_timezone no_tzdata_platform = zone_pytz_Seoul"
  by (simp_all add: local_timezone_def get_local_timezone_def sample_ZoneInfo utc_only_facts
      no_tzdata_facts seoul_ZoneInfo bad_tz_facts)

lemma iso_time_samples:
  "iso_time ''09:00'' = Inr \<lparr>t_hour = 9, t_minute = 0, t_second = 0, t_microsecond = 0\<rparr>"
  "iso_time ''12'' = Inr \<lparr>t_hour = 12, t_minute = 0, t_second = 0, t_microsecond = 0\<rparr>"
  "iso_time ''25:00'' = Inl ''hour must be in 0..23''"
  "iso_time ''12:60'' = Inl ''minute must be in 0..59''"
  "iso_time ''noon'' = Inl (invalid_isoformat ''noon'')"
  by (simp_all add: iso_time_def make_time_def two_digits_def digit_val_def)

lemma zone_facts:
  "obj_id zone_UTC = 1" "obj_id zone_Seoul = 2" "obj_id zone_New_York = 3"
  "tz_str zone_UTC = ''UTC''" "tz_str zone_Seoul = ''Asia/Seoul''"
  "tz_str zone_New_York = ''America/New_York''"
  "utcoffset_wall zone_UTC w = 0" "dst_wall zone_UTC w = 0"
  "utcoffset_utc zone_UTC w = 0" "dst_utc zone_UTC w = 0"
  "utcoffset_wall zone_Seoul w = hours 9" "dst_wall zone_Seoul w = 0"
  "utcoffset_utc zone_Seoul w = hours 9" "dst_utc zone_Seoul w = 0"
  "utcoffset_utc zone_New_York w =
     (if at_clock 20520 7 \<le> w \<and> w < at_clock 20758 6 then hours (- 4) else hours (- 5))"
  "dst_utc zone_New_York w =
     (if at_clock 20520 7 \<le> w \<and> w < at_clock 20758 6 then hours 1 else 0)"
  by (simp_all add: zone_UTC_def zone_Seoul_def zone_New_York_def)

lemmas datetime_defs =
  replace_tzinfo_def astimezone_def fromutc_def utcoffset_def dst_of_def timestamp_def
  total_seconds_def combine_def hours_def at_clock_def

lemma sample_resolve:
  "resolve_name sample_platform (effective sample_platform (Some ''UTC'')) = Inr zone_UTC"
  "resolve_name sample_platform (effective sample_platform (Some ''Asia/Seoul'')) = Inr zone_Seoul"
  "resolve_name sample_platform (effective sample_platform (Some ''America/New_York'')) =
     Inr zone_New_York"
  by (simp_all add: resolve_name_def effective_def sample_ZoneInfo)

lemma seoul_to_new_york:
  "convert_time_try sample_platform 20761 ''09:00'' zone_Seoul zone_New_York =
     Converted
       \<lparr>source_time =
          \<lparr>dt_wall = at_clock 20761 9, dt_tzinfo = zone_Seoul, dt_off = hours 9, dt_dst = 0\<rparr>,
        source_timezone = ''Asia/Seoul'',
        target_time =
          \<lparr>dt_wall = at_clock 20760 19, dt_tzinfo = zone_New_York, dt_off = hours (- 5),
           dt_dst = 0\<rparr>,
        target_timezone = ''America/New_York'',
        dst_source = False, dst_target = False,
        utc_offset_diff_hours = Some (- 14),
        time_difference_seconds = 0\<rparr>"
  by (simp add: convert_time_try_def sample_ZoneInfo iso_time_samples zone_facts datetime_defs Let_def)

lemma utc_to_seoul:
  "convert_time_try sample_platform 20761 ''09:00'' zone_UTC zone_Seoul =
     Converted
       \<lparr>source_time =
          \<lparr>dt_wall = at_clock 20761 9, dt_tzinfo = zone_UTC, dt_off = 0, dt_dst = 0\<rparr>,
        source_timezone = ''UTC'',
        target_time =
          \<lparr>dt_wall = at_clock 20761 18, dt_tzinfo = zone_Seoul, dt_off = hours 9, dt_dst = 0\<rparr>,
        target_timezone = ''Asia/Seoul'',
        dst_source = False, dst_target = False,
        utc_offset_diff_hours = None,
        time_difference_seconds = 0\<rparr>"
  by (simp add: convert_time_try_def sample_ZoneInfo iso_time_samples zone_facts datetime_defs Let_def)

lemma utc_to_utc:
  "convert_time_try sample_platform 20761 ''09:00'' zone_UTC zone_UTC =
     Converted
       \<lparr>source_time =
          \<lparr>dt_wall = at_clock 20761 9, dt_tzinfo = zone_UTC, dt_off = 0, dt_dst = 0\<rparr>,
        source_timezone = ''UTC'',
        target_time =
          \<lparr>dt_wall = at_clock 20761 9, dt_tzinfo = zone_UTC, dt_off = 0, dt_dst = 0\<rparr>,
        target_timezone = ''UTC'',
        dst_source = False, dst_target = False,
        utc_offset_diff_hours = None,
        time_difference_seconds = 0\<rparr>"
  by (simp add: convert_time_try_def sample_ZoneInfo iso_time_samples zone_facts datetime_defs Let_def)

lemma orig_utc_to_seoul:
  "convert_time_orig sample_platform 20761 ''UTC'' ''09:00'' ''Asia/Seoul'' =
     Inr \<lparr>source_time_o =
            \<lparr>dt_wall = at_clock 20761 9, dt_tzinfo = zone_UTC, dt_off = 0, dt_dst = 0\<rparr>,
          source_timezone_o = ''UTC'',
          target_time_o =
            \<lparr>dt_wall = at_clock 20761 18, dt_tzinfo = zone_Seoul, dt_off = hours 9, dt_dst = 0\<rparr>,
          target_timezone_o = ''Asia/Seoul'',
          dst_source_o = False, dst_target_o = False,
          utc_offset_diff_hours_o = None\<rparr>"
  by (simp add: convert_time_orig_def convert_tz_orig_def sample_ZoneInfo iso_time_samples
      zone_facts datetime_defs Let_def)

lemma sample_dom:
  "dom (timezone_cache (run sample_platform init_state calls)) =
     effective sample_platform ` set calls"
  using run_dom[OF sample_ZoneInfo(1) cache_ok_init, of calls]
  by (simp add: init_state_def)

lemma sample_cache_size:
  "card (dom (timezone_cache (run sample_platform init_state
      (map (\<lambda>i. Some (replicate (Suc i) (CHR ''x''))) [0..<n])))) = n"
proof -
  let ?f = "\<lambda>i::nat. replicate (Suc i) (CHR ''x'')"
  have inj: "inj_on ?f {0..<n}"
    by (rule inj_onI) (metis length_replicate nat.inject)
  have eff: "\<And>i. effective sample_platform (Some (?f i)) = ?f i"
    by (simp add: effective_def)
  have "effective sample_platform ` set (map (\<lambda>i. Some (?f i)) [0..<n]) =
      (\<lambda>i. effective sample_platform (Some (?f i))) ` {0..<n}"
    by (simp add: image_image)
  then have "effective sample_platform ` set (map (\<lambda>i. Some (?f i)) [0..<n]) = ?f ` {0..<n}"
    by (simp only: eff)
  then have "card (dom (timezone_cache (run sample_platform init_state
      (map (\<lambda>i. Some (?f i)) [0..<n])))) = card (?f ` {0..<n})"
    by (simp only: sample_dom)
  also have "\<dots> = n" using inj by (simp add: card_image)
  finally show ?thesis .
qed

text \<open>
  After 257 distinct names the memo table has dropped the first of them, the least
  recently used, and the dictionary still holds it.
\<close>

lemma x_names_distinct:
  "distinct (map (\<lambda>i. Some (replicate (Suc i) (CHR ''x''))) [0..<n])"
proof -
  have "inj_on (\<lambda>i::nat. Some (replicate (Suc i) (CHR ''x''))) (set [0..<n])"
    by (rule inj_onI) (metis length_replicate nat.inject option.inject)
  then show ?thesis by (simp add: distinct_map)
qed

lemma memo_evicts_least_recent:
  "Some ''x'' \<notin> fst ` set (lru (run sample_platform init_state
      (map (\<lambda>i. Some (replicate (Suc i) (CHR ''x''))) [0..<257]))) \<and>
   timezone_cache (run sample_platform init_state
      (map (\<lambda>i. Some (replicate (Suc i) (CHR ''x''))) [0..<257])) ''x'' = Some zone_UTC"
proof
  let ?f = "\<lambda>i::nat. Some (replicate (Suc i) (CHR ''x''))"
  let ?calls = "map ?f [0..<257]"
  have keys: "map fst (lru (run sample_platform init_state ?calls)) =
      take 256 (rev (remdups ?calls))"
    using lru_keys[OF sample_ZoneInfo(1), of ?calls] by (simp only: maxsize_def)
  have rd: "remdups ?calls = ?calls" using x_names_distinct[of 257] by (rule distinct_remdups_id)
  have tk: "take 256 (rev ?calls) = rev (drop 1 ?calls)" by (simp add: take_rev)
  have dr: "drop 1 ?calls = map ?f [1..<257]" by (simp add: drop_map)
  have "map fst (lru (run sample_platform init_state ?calls)) = rev (map ?f [1..<257])"
    by (simp only: keys rd tk dr)
  then have "set (map fst (lru (run sample_platform init_state ?calls))) = ?f ` {1..<257}"
    by simp
  moreover have "Some ''x'' \<notin> ?f ` {1..<257}"
  proof
    assume "Some ''x'' \<in> ?f ` {1..<257}"
    then obtain i where "1 \<le> i" and "''x'' = replicate (Suc i) (CHR ''x'')" by auto
    then have "length ''x'' = Suc i" by (metis length_replicate)
    with \<open>1 \<le> i\<close> show False by simp
  qed
  ultimately show "Some ''x'' \<notin> fst ` set (lru (run sample_platform init_state ?calls))"
    by simp
next
  let ?f = "\<lambda>i::nat. Some (replicate (Suc i) (CHR ''x''))"
  have first: "timezone_cache (run sample_platform init_state [Some ''x'']) ''x'' = Some zone_UTC"
    by (simp add: run_Cons run_Nil get_timezone_def get_timezone_body_def init_state_def
        sample_platform_def)
  have "[0..<257] = 0 # [Suc 0..<257]" by (rule upt_conv_Cons) simp
  then have "map ?f [0..<257] = [Some ''x''] @ map ?f [1..<257]"
    by (simp only: list.map append_Cons append_Nil replicate_Suc replicate_0 One_nat_def)
  then have "run sample_platform init_state (map ?f [0..<257]) =
      run sample_platform (run sample_platform init_state [Some ''x'']) (map ?f [1..<257])"
    by (simp only: run_append)
  with run_persists[OF first] show "timezone_cache (run sample_platform init_state
      (map ?f [0..<257])) ''x'' = Some zone_UTC" by simp
qed

section \<open>What a conversion returns\<close>

lemma same_zone_nonzero_offset:
  assumes "convert_time_try P today time z z = Converted r" and "dt_off (source_time r) \<noteq> 0"
  shows "target_time r = source_time r \<and> utc_offset_diff_hours r = Some 0 \<and>
         time_difference_seconds r = 0"
  using assms same_zone_same_time[OF assms(1)] diff_hours_of_offsets[OF assms(1)]
    time_difference_zero[OF assms(1)]
  by (simp add: total_seconds_def)

section \<open>The claims\<close>

text \<open>
  C1, as the code has it. The claim fails in the original variant: with \<^verbatim>\<open>TZ=Asia/Seoul\<close>
  the lookup of \<^verbatim>\<open>get_current_time\<close> answers a name no database knows with the zone
  Asia/Seoul, and the lookup of \<^verbatim>\<open>convert_time\<close> lets pytz's exception through.
\<close>

theorem unknown_name_orig_counterexample:
  "timezone_o (get_current_time_orig seoul_platform 0 (Some ''Mars/Phobos'')) = ''Asia/Seoul'' \<and>
   convert_time_orig sample_platform 20761 ''Mars/Phobos'' ''09:00'' ''UTC'' =
     Inl (UnknownTimeZoneError ''Mars/Phobos'')"
  by (simp add: get_current_time_orig_def current_time_tz_orig_def local_timezone_def
      get_local_timezone_def convert_time_orig_def convert_tz_orig_def seoul_ZoneInfo
      sample_ZoneInfo zone_Seoul_def Let_def)

text \<open>
  C1, amended. In the optimized variant, when zoneinfo can build UTC, \<^verbatim>\<open>get_timezone\<close>
  raises nothing and returns that handle, named UTC, for every non-empty string that
  zoneinfo rejects, in every state the process can reach. In the original variant, on
  every platform, the lookup of \<^verbatim>\<open>get_current_time\<close> raises nothing either and returns
  \<^verbatim>\<open>local_timezone\<close>, the default of the process, for every string that both databases
  reject.
\<close>

theorem unknown_name_resolution:
  "(ZoneInfo P ''UTC'' = Some u \<longrightarrow> tz_str u = ''UTC'' \<longrightarrow> ZoneInfo P name = None \<longrightarrow> name \<noteq> [] \<longrightarrow>
      (\<exists>h. fst (get_timezone P (run P init_state calls) (Some name)) = Inr h \<and> h = u \<and>
           tz_str h = ''UTC'')) \<and>
   (ZoneInfo P name = None \<longrightarrow> pytz_timezone P name = None \<longrightarrow>
      current_time_tz_orig P (Some name) = local_timezone P \<and>
      timezone_o (get_current_time_orig P clock (Some name)) = tz_str (local_timezone P))"
proof (intro conjI impI)
  assume "ZoneInfo P ''UTC'' = Some u" and "tz_str u = ''UTC''"
    and "ZoneInfo P name = None" and "name \<noteq> []"
  then show "\<exists>h. fst (get_timezone P (run P init_state calls) (Some name)) = Inr h \<and> h = u \<and>
      tz_str h = ''UTC''"
    by (simp add: get_timezone_outcome[OF reachable_ok] effective_def resolve_name_def)
next
  assume a: "ZoneInfo P name = None" "pytz_timezone P name = None"
  then show t: "current_time_tz_orig P (Some name) = local_timezone P"
    by (simp add: current_time_tz_orig_def)
  then show "timezone_o (get_current_time_orig P clock (Some name)) = tz_str (local_timezone P)"
    by (simp add: get_current_time_orig_def Let_def)
qed

theorem unknown_name_resolution_witness:
  "(\<exists>h. fst (get_timezone sample_platform
              (run sample_platform init_state [Some ''Asia/Seoul'', None])
              (Some ''Mars/Phobos'')) = Inr h \<and> h = zone_UTC \<and> tz_str h = ''UTC'') \<and>
   current_time_tz_orig sample_platform (Some ''Mars/Phobos'') = zone_UTC \<and>
   timezone_o (get_current_time_orig sample_platform 0 (Some ''Mars/Phobos'')) = ''UTC'' \<and>
   current_time_tz_orig no_tzdata_platform (Some ''Mars/Phobos'') = zone_pytz_Seoul \<and>
   timezone_o (get_current_time_orig no_tzdata_platform 0 (Some ''Mars/Phobos'')) = ''Asia/Seoul''"
proof -
  have u: "ZoneInfo sample_platform ''UTC'' = Some zone_UTC" by (rule sample_ZoneInfo)
  have n: "tz_str zone_UTC = ''UTC''" by (simp add: zone_UTC_def)
  have m: "ZoneInfo sample_platform ''Mars/Phobos'' = None" by (rule sample_ZoneInfo)
  have e: "''Mars/Phobos'' \<noteq> []" by simp
  have p: "pytz_timezone sample_platform ''Mars/Phobos'' = None" by (rule sample_ZoneInfo)
  have m': "ZoneInfo no_tzdata_platform ''Mars/Phobos'' = None" by (rule no_tzdata_facts)
  have p': "pytz_timezone no_tzdata_platform ''Mars/Phobos'' = None" by (rule no_tzdata_facts)
  have s: "tz_str zone_pytz_Seoul = ''Asia/Seoul''" by (simp add: zone_pytz_Seoul_def)
  from unknown_name_resolution[of sample_platform zone_UTC "''Mars/Phobos''"
      "[Some ''Asia/Seoul'', None]" 0]
    unknown_name_resolution[of no_tzdata_platform zone_UTC "''Mars/Phobos''" "[]" 0]
    u n m e p m' p' s
  show ?thesis by (simp add: sample_local_timezone)
qed

text \<open>
  C2, as the code has it. The original \<^verbatim>\<open>convert_time\<close> has no handler: at \<^verbatim>\<open>"25:00"\<close> the
  \<^verbatim>\<open>ValueError\<close> of the parser reaches the caller. The optimized one reports what the
  parser rejects, and the parser reads more than hour and minute pairs: \<^verbatim>\<open>"12"\<close> is
  converted.
\<close>

theorem invalid_time_counterexample:
  "convert_time_orig sample_platform 20761 ''Asia/Seoul'' ''25:00'' ''UTC'' =
     Inl (ValueError ''hour must be in 0..23'') \<and>
   fst (convert_time sample_platform 20761 init_state ''UTC'' ''12'' ''UTC'') =
     Inr (Converted
       \<lparr>source_time =
          \<lparr>dt_wall = at_clock 20761 12, dt_tzinfo = zone_UTC, dt_off = 0, dt_dst = 0\<rparr>,
        source_timezone = ''UTC'',
        target_time =
          \<lparr>dt_wall = at_clock 20761 12, dt_tzinfo = zone_UTC, dt_off = 0, dt_dst = 0\<rparr>,
        target_timezone = ''UTC'',
        dst_source = False, dst_target = False,
        utc_offset_diff_hours = None,
        time_difference_seconds = 0\<rparr>)"
proof -
  have "convert_time_orig sample_platform 20761 ''Asia/Seoul'' ''25:00'' ''UTC'' =
     Inl (ValueError ''hour must be in 0..23'')"
    by (simp add: convert_time_orig_def convert_tz_orig_def sample_ZoneInfo iso_time_samples)
  moreover have "convert_time_try sample_platform 20761 ''12'' zone_UTC zone_UTC =
     Converted
       \<lparr>source_time =
          \<lparr>dt_wall = at_clock 20761 12, dt_tzinfo = zone_UTC, dt_off = 0, dt_dst = 0\<rparr>,
        source_timezone = ''UTC'',
        target_time =
          \<lparr>dt_wall = at_clock 20761 12, dt_tzinfo = zone_UTC, dt_off = 0, dt_dst = 0\<rparr>,
        target_timezone = ''UTC'',
        dst_source = False, dst_target = False,
        utc_offset_diff_hours = None,
        time_difference_seconds = 0\<rparr>"
    by (simp add: convert_time_try_def sample_ZoneInfo iso_time_samples zone_facts datetime_defs
        Let_def)
  ultimately show ?thesis
    by (simp add: convert_time_outcome[OF cache_ok_init] sample_resolve)
qed

text \<open>
  C2, amended. In the optimized variant, when zoneinfo can build UTC, \<^verbatim>\<open>convert_time\<close>
  answers every time string that \<^verbatim>\<open>time.fromisoformat\<close> rejects with the record holding
  \<^verbatim>\<open>"Invalid time format: <string>. Expected HH:MM format."\<close> and the message of the
  \<^verbatim>\<open>ValueError\<close>, from every state the process can reach and for all timezone names.
\<close>

theorem invalid_time_reported:
  assumes "ZoneInfo P ''UTC'' = Some u" and "fromisoformat P time = Inl msg"
  shows "fst (convert_time P today (run P init_state calls) src time tgt) =
     Inr (Invalid
       \<lparr>error = ''Invalid time format: '' @ time @ ''. Expected HH:MM format.'',
        details = msg\<rparr>)"
  using assms
  by (simp add: convert_time_outcome[OF reachable_ok] resolve_name_with_UTC[OF assms(1)]
      convert_time_try_def)

theorem invalid_time_reported_witness:
  "fst (convert_time sample_platform 20761 (run sample_platform init_state [Some ''UTC''])
          ''Asia/Seoul'' ''25:00'' ''America/New_York'') =
     Inr (Invalid
       \<lparr>error = ''Invalid time format: 25:00. Expected HH:MM format.'',
        details = ''hour must be in 0..23''\<rparr>) \<and>
   fst (convert_time sample_platform 20761 init_state ''Asia/Seoul'' ''12:60'' ''UTC'') =
     Inr (Invalid
       \<lparr>error = ''Invalid time format: 12:60. Expected HH:MM format.'',
        details = ''minute must be in 0..59''\<rparr>) \<and>
   fst (convert_time sample_platform 20761 init_state ''Mars/Phobos'' ''noon'' ''UTC'') =
     Inr (Invalid
       \<lparr>error = ''Invalid time format: noon. Expected HH:MM format.'',
        details = invalid_isoformat ''noon''\<rparr>)"
proof -
  have u: "ZoneInfo sample_platform ''UTC'' = Some zone_UTC" by (rule sample_ZoneInfo)
  have a: "fromisoformat sample_platform ''25:00'' = Inl ''hour must be in 0..23''"
    and b: "fromisoformat sample_platform ''12:60'' = Inl ''minute must be in 0..59''"
    and c: "fromisoformat sample_platform ''noon'' = Inl (invalid_isoformat ''noon'')"
    by (simp_all add: sample_ZoneInfo iso_time_samples)
  from invalid_time_reported[OF u a, of 20761 "[Some ''UTC'']" "''Asia/Seoul''" "''America/New_York''"]
    invalid_time_reported[OF u b, of 20761 "[]" "''Asia/Seoul''" "''UTC''"]
    invalid_time_reported[OF u c, of 20761 "[]" "''Mars/Phobos''" "''UTC''"]
  show ?thesis by (simp add: run_Nil)
qed

text \<open>
  C3, at a failing input. Converting 09:00 in Seoul to New York on 2026-11-04 gives an
  offset difference of -14 hours, so the claim asks for -50400 seconds; the code
  returns 0, the difference of the timestamps of two datetimes of one instant
  (lemma \<open>time_difference_zero\<close>: it returns 0 at every conversion).
\<close>

theorem time_difference_seoul_new_york:
  "fst (convert_time sample_platform 20761 init_state ''Asia/Seoul'' ''09:00'' ''America/New_York'') =
     Inr (Converted
       \<lparr>source_time =
          \<lparr>dt_wall = at_clock 20761 9, dt_tzinfo = zone_Seoul, dt_off = hours 9, dt_dst = 0\<rparr>,
        source_timezone = ''Asia/Seoul'',
        target_time =
          \<lparr>dt_wall = at_clock 20760 19, dt_tzinfo = zone_New_York, dt_off = hours (- 5),
           dt_dst = 0\<rparr>,
        target_timezone = ''America/New_York'',
        dst_source = False, dst_target = False,
        utc_offset_diff_hours = Some (- 14),
        time_difference_seconds = 0\<rparr>)"
  by (simp add: convert_time_outcome[OF cache_ok_init] sample_resolve seoul_to_new_york)

text \<open>
  C4, at a failing input. Converting 09:00 from UTC to UTC returns the same local time
  on both sides and a time difference of zero seconds, and \<^verbatim>\<open>None\<close> where the claim asks
  for an offset difference of zero: the guard on the offsets fails for \<^verbatim>\<open>timedelta(0)\<close>.
  (Lemma \<open>same_zone_nonzero_offset\<close>: the claim holds for a zone whose offset is not
  zero.)
\<close>

theorem utc_to_utc_diff_none:
  "fst (convert_time sample_platform 20761 init_state ''UTC'' ''09:00'' ''UTC'') =
     Inr (Converted
       \<lparr>source_time =
          \<lparr>dt_wall = at_clock 20761 9, dt_tzinfo = zone_UTC, dt_off = 0, dt_dst = 0\<rparr>,
        source_timezone = ''UTC'',
        target_time =
          \<lparr>dt_wall = at_clock 20761 9, dt_tzinfo = zone_UTC, dt_off = 0, dt_dst = 0\<rparr>,
        target_timezone = ''UTC'',
        dst_source = False, dst_target = False,
        utc_offset_diff_hours = None,
        time_difference_seconds = 0\<rparr>)"
  by (simp add: convert_time_outcome[OF cache_ok_init] sample_resolve utc_to_utc)

text \<open>
  C5, as the code has it. The original variant keeps no memo: its lookup asks the
  databases at every call. A name answered with the fallback while zoneinfo lacks it is
  answered with its own zone once zoneinfo has it.
\<close>

theorem lookup_orig_not_memoised:
  "timezone_o (get_current_time_orig utc_only_platform 0 (Some ''Asia/Seoul'')) = ''UTC'' \<and>
   timezone_o (get_current_time_orig sample_platform 0 (Some ''Asia/Seoul'')) = ''Asia/Seoul''"
  by (simp add: get_current_time_orig_def current_time_tz_orig_def Let_def utc_only_facts
      sample_ZoneInfo sample_local_timezone zone_UTC_def zone_Seoul_def)

text \<open>
  C5, amended. In the optimized variant a call that returned a handle has stored it,
  under the argument in the memo table and under the effective name in the dictionary,
  and every later call of the process with that argument returns the stored handle,
  hence the same canonical name, whatever was resolved in between and whatever the
  databases would answer by then. The lookup of the original \<^verbatim>\<open>get_current_time\<close> stores
  nothing: it returns the same handle as long as the two databases and the default are
  the same.
\<close>

theorem resolve_again_same_handle:
  "(fst (get_timezone P (run P init_state before) arg) = Inr h \<longrightarrow>
    LOCAL_TZ_NAME Q = LOCAL_TZ_NAME P \<longrightarrow>
      map_of (lru (snd (get_timezone P (run P init_state before) arg))) arg = Some h \<and>
      timezone_cache (snd (get_timezone P (run P init_state before) arg)) (effective P arg) =
        Some h \<and>
      fst (get_timezone Q
             (run Q (snd (get_timezone P (run P init_state before) arg)) between) arg) = Inr h) \<and>
   (ZoneInfo Q = ZoneInfo P \<longrightarrow> pytz_timezone Q = pytz_timezone P \<longrightarrow>
    local_timezone Q = local_timezone P \<longrightarrow>
      current_time_tz_orig Q arg = current_time_tz_orig P arg)"
proof (intro conjI impI)
  let ?s = "snd (get_timezone P (run P init_state before) arg)"
  assume r: "fst (get_timezone P (run P init_state before) arg) = Inr h"
    and env: "LOCAL_TZ_NAME Q = LOCAL_TZ_NAME P"
  have ok: "cache_ok P (run P init_state before)" by (rule reachable_ok)
  note st = stored_after[OF ok r]
  show "map_of (lru ?s) arg = Some h" by (rule st(1))
  show "timezone_cache ?s (effective P arg) = Some h" by (rule st(2))
  from stored_run[OF env st(2) st(3), of between]
  have "timezone_cache (run Q ?s between) (effective P arg) = Some h"
    and "\<forall>z. (arg, z) \<in> set (lru (run Q ?s between)) \<longrightarrow> z = h" by blast+
  then show "fst (get_timezone Q (run Q ?s between) arg) = Inr h"
    by (rule stored_answer[OF env])
next
  assume "ZoneInfo Q = ZoneInfo P" "pytz_timezone Q = pytz_timezone P"
    "local_timezone Q = local_timezone P"
  then show "current_time_tz_orig Q arg = current_time_tz_orig P arg"
    by (simp add: current_time_tz_orig_def split: option.splits)
qed

theorem resolve_again_same_handle_witness:
  "fst (get_timezone utc_only_platform (run utc_only_platform init_state [Some ''UTC''])
          (Some ''Asia/Seoul'')) = Inr zone_UTC \<and>
   fst (get_timezone sample_platform
          (run sample_platform
             (snd (get_timezone utc_only_platform
                (run utc_only_platform init_state [Some ''UTC'']) (Some ''Asia/Seoul'')))
             [Some ''America/New_York'', None])
          (Some ''Asia/Seoul'')) = Inr zone_UTC \<and>
   fst (get_timezone sample_platform init_state (Some ''Asia/Seoul'')) = Inr zone_Seoul \<and>
   current_time_tz_orig (sample_platform\<lparr>get_localzone_name := Some ''Asia/Seoul''\<rparr>)
     (Some ''Asia/Seoul'') = zone_Seoul"
proof -
  have 1: "fst (get_timezone utc_only_platform (run utc_only_platform init_state [Some ''UTC''])
          (Some ''Asia/Seoul'')) = Inr zone_UTC"
    by (simp add: get_timezone_outcome[OF reachable_ok] effective_def resolve_name_def
        utc_only_facts)
  have 2: "LOCAL_TZ_NAME sample_platform = LOCAL_TZ_NAME utc_only_platform"
    by (simp add: sample_LOCAL_TZ_NAME)
  have 3: "fst (get_timezone sample_platform init_state (Some ''Asia/Seoul'')) = Inr zone_Seoul"
    by (simp add: get_timezone_outcome[OF cache_ok_init] effective_def resolve_name_def
        sample_ZoneInfo)
  have 4: "ZoneInfo (sample_platform\<lparr>get_localzone_name := Some ''Asia/Seoul''\<rparr>) =
      ZoneInfo sample_platform"
    "pytz_timezone (sample_platform\<lparr>get_localzone_name := Some ''Asia/Seoul''\<rparr>) =
      pytz_timezone sample_platform"
    "local_timezone (sample_platform\<lparr>get_localzone_name := Some ''Asia/Seoul''\<rparr>) =
      local_timezone sample_platform"
    by (simp_all add: local_timezone_def get_local_timezone_def sample_ZoneInfo)
  have 5: "current_time_tz_orig sample_platform (Some ''Asia/Seoul'') = zone_Seoul"
    by (simp add: current_time_tz_orig_def sample_ZoneInfo)
  from resolve_again_same_handle[of utc_only_platform "[Some ''UTC'']" "Some ''Asia/Seoul''"
      zone_UTC sample_platform "[Some ''America/New_York'', None]"]
    resolve_again_same_handle[of sample_platform "[]" "Some ''Asia/Seoul''" zone_Seoul
      "sample_platform\<lparr>get_localzone_name := Some ''Asia/Seoul''\<rparr>" "[]"]
    1 2 3 4 5
  show ?thesis by simp
qed

text \<open>
  C6, as the code has it. The dictionary \<^verbatim>\<open>_timezone_cache\<close> has no ceiling: 257 distinct
  names leave 257 entries in it, and no number bounds its size over all runs.
\<close>

theorem timezone_cache_unbounded:
  "card (dom (timezone_cache (run sample_platform init_state
      (map (\<lambda>i. Some (replicate (Suc i) (CHR ''x''))) [0..<257])))) = 257 \<and>
   \<not> (\<exists>N. \<forall>calls. card (dom (timezone_cache (run sample_platform init_state calls))) \<le> N)"
proof
  show "card (dom (timezone_cache (run sample_platform init_state
      (map (\<lambda>i. Some (replicate (Suc i) (CHR ''x''))) [0..<257])))) = 257"
    by (rule sample_cache_size)
  show "\<not> (\<exists>N. \<forall>calls. card (dom (timezone_cache (run sample_platform init_state calls))) \<le> N)"
  proof
    assume "\<exists>N. \<forall>calls. card (dom (timezone_cache (run sample_platform init_state calls))) \<le> N"
    then obtain N where
      b: "\<And>calls. card (dom (timezone_cache (run sample_platform init_state calls))) \<le> N"
      by blast
    from b[of "map (\<lambda>i. Some (replicate (Suc i) (CHR ''x''))) [0..<Suc N]"]
    have "Suc N \<le> N" by (simp only: sample_cache_size)
    then show False by simp
  qed
qed

text \<open>
  C6, amended. The dictionary \<^verbatim>\<open>_timezone_cache\<close> holds one handle for a name and never
  drops or changes an entry; it is the memo table of \<^verbatim>\<open>lru_cache\<close> in front of it that
  is bounded, with least-recently-used eviction: it never holds more than 256 entries,
  and when every call returns (zoneinfo can build UTC) it holds exactly the 256 most
  recently used distinct arguments of the run, the most recent first.
\<close>

theorem cache_entries_persist_lru_bounded:
  "(timezone_cache s k = Some z \<longrightarrow> timezone_cache (run P s calls) k = Some z) \<and>
   length (lru (run P init_state calls)) \<le> 256 \<and>
   (ZoneInfo P ''UTC'' = Some u \<longrightarrow>
      map fst (lru (run P init_state calls)) = take 256 (rev (remdups calls)))"
proof (intro conjI impI)
  assume "timezone_cache s k = Some z"
  then show "timezone_cache (run P s calls) k = Some z" by (rule run_persists)
next
  show "length (lru (run P init_state calls)) \<le> 256"
    using reachable_ok[of P calls] by (simp add: cache_ok_def maxsize_def)
next
  assume "ZoneInfo P ''UTC'' = Some u"
  from lru_keys[OF this, of calls]
  show "map fst (lru (run P init_state calls)) = take 256 (rev (remdups calls))"
    by (simp only: maxsize_def)
qed

theorem cache_entries_persist_lru_bounded_witness:
  "timezone_cache (run sample_platform init_state [Some ''Mars/Phobos'']) ''Mars/Phobos'' =
     Some zone_UTC \<and>
   timezone_cache
     (run sample_platform (run sample_platform init_state [Some ''Mars/Phobos''])
        [Some ''UTC'', Some ''Asia/Seoul'', Some ''UTC'']) ''Mars/Phobos'' = Some zone_UTC \<and>
   length (lru (run sample_platform init_state [Some ''UTC'', Some ''Asia/Seoul'', Some ''UTC'']))
     \<le> 256 \<and>
   map fst (lru (run sample_platform init_state [Some ''UTC'', Some ''Asia/Seoul'', Some ''UTC''])) =
     [Some ''UTC'', Some ''Asia/Seoul'']"
proof -
  have 1: "timezone_cache (run sample_platform init_state [Some ''Mars/Phobos''])
      ''Mars/Phobos'' = Some zone_UTC"
    by (simp add: run_Cons run_Nil get_timezone_def get_timezone_body_def init_state_def
        sample_ZoneInfo)
  have 2: "ZoneInfo sample_platform ''UTC'' = Some zone_UTC" by (rule sample_ZoneInfo)
  from 1 2 cache_entries_persist_lru_bounded[of
      "run sample_platform init_state [Some ''Mars/Phobos'']" "''Mars/Phobos''" zone_UTC
      sample_platform "[Some ''UTC'', Some ''Asia/Seoul'', Some ''UTC'']" zone_UTC]
  show ?thesis by simp
qed

text \<open>
  C7, at a failing input. Converting 09:00 in UTC to Seoul, the target is nine hours
  ahead of the source and the claim asks for 9; the code returns \<^verbatim>\<open>None\<close>, since the
  guard \<^verbatim>\<open>if tgt_offset and src_offset\<close> takes the source's \<^verbatim>\<open>timedelta(0)\<close> for a missing
  offset. (Lemma \<open>diff_hours_of_offsets\<close>: the difference is returned when neither offset
  is zero.)
\<close>

theorem utc_to_seoul_diff_none:
  "fst (convert_time sample_platform 20761 init_state ''UTC'' ''09:00'' ''Asia/Seoul'') =
     Inr (Converted
       \<lparr>source_time =
          \<lparr>dt_wall = at_clock 20761 9, dt_tzinfo = zone_UTC, dt_off = 0, dt_dst = 0\<rparr>,
        source_timezone = ''UTC'',
        target_time =
          \<lparr>dt_wall = at_clock 20761 18, dt_tzinfo = zone_Seoul, dt_off = hours 9, dt_dst = 0\<rparr>,
        target_timezone = ''Asia/Seoul'',
        dst_source = False, dst_target = False,
        utc_offset_diff_hours = None,
        time_difference_seconds = 0\<rparr>)"
  by (simp add: convert_time_outcome[OF cache_ok_init] sample_resolve utc_to_seoul)

text \<open>
  C8. \<^verbatim>\<open>get_current_time("UTC")\<close> returns a record with timezone UTC, dst false and a UTC
  offset of zero hours, in both variants and in every state the process can reach, on a
  platform whose zoneinfo builds for UTC a zone that is named UTC and reports no offset
  and no daylight saving at the current instant.
\<close>

theorem current_time_UTC:
  assumes "ZoneInfo P ''UTC'' = Some u" and "tz_str u = ''UTC''"
    and "utcoffset_utc u clock = 0" and "dst_utc u clock = 0"
  shows "(\<exists>r. fst (get_current_time P clock (run P init_state calls) (Some ''UTC'')) = Inr r \<and>
              timezone r = ''UTC'' \<and> dst r = False \<and> utc_offset_hours r = 0) \<and>
         timezone_o (get_current_time_orig P clock (Some ''UTC'')) = ''UTC'' \<and>
         dst_o (get_current_time_orig P clock (Some ''UTC'')) = False \<and>
         utc_offset_hours_o (get_current_time_orig P clock (Some ''UTC'')) = 0"
proof -
  have r: "resolve_name P (effective P (Some ''UTC'')) = Inr u"
    using assms(1) by (simp add: effective_def resolve_name_def)
  have n: "datetime_now clock u =
      \<lparr>dt_wall = clock, dt_tzinfo = u, dt_off = 0, dt_dst = 0\<rparr>"
    using assms(3,4) by (simp add: datetime_now_def fromutc_def)
  have "\<exists>r. fst (get_current_time P clock (run P init_state calls) (Some ''UTC'')) = Inr r \<and>
              timezone r = ''UTC'' \<and> dst r = False \<and> utc_offset_hours r = 0"
    using assms(2) by (simp add: get_current_time_outcome[OF reachable_ok] r n utcoffset_def dst_of_def)
  moreover have t: "current_time_tz_orig P (Some ''UTC'') = u"
    using assms(1) by (simp add: current_time_tz_orig_def)
  have "timezone_o (get_current_time_orig P clock (Some ''UTC'')) = ''UTC'' \<and>
         dst_o (get_current_time_orig P clock (Some ''UTC'')) = False \<and>
         utc_offset_hours_o (get_current_time_orig P clock (Some ''UTC'')) = 0"
    using assms(2) by (simp add: get_current_time_orig_def t n utcoffset_def dst_of_def Let_def)
  ultimately show ?thesis by blast
qed

theorem current_time_UTC_witness:
  "(\<exists>r. fst (get_current_time sample_platform (at_clock 20761 12)
              (run sample_platform init_state [Some ''Asia/Seoul'', Some ''UTC''])
              (Some ''UTC'')) = Inr r \<and>
        timezone r = ''UTC'' \<and> dst r = False \<and> utc_offset_hours r = 0) \<and>
   timezone_o (get_current_time_orig sample_platform (at_clock 20761 12) (Some ''UTC'')) = ''UTC'' \<and>
   dst_o (get_current_time_orig sample_platform (at_clock 20761 12) (Some ''UTC'')) = False \<and>
   utc_offset_hours_o (get_current_time_orig sample_platform (at_clock 20761 12) (Some ''UTC'')) = 0"
proof -
  have u: "ZoneInfo sample_platform ''UTC'' = Some zone_UTC" by (rule sample_ZoneInfo)
  have n: "tz_str zone_UTC = ''UTC''" by (simp add: zone_UTC_def)
  have o: "utcoffset_utc zone_UTC (at_clock 20761 12) = 0" by (simp add: zone_UTC_def)
  have d: "dst_utc zone_UTC (at_clock 20761 12) = 0" by (simp add: zone_UTC_def)
  show ?thesis
    by (rule current_time_UTC[OF u n o d])
qed

text \<open>
  C9, as the code has it. In the original variant an unset \<^verbatim>\<open>TZ\<close> does not make the default
  UTC when zoneinfo has no data: the default is then the zone tzlocal reports.
\<close>

theorem default_not_UTC_counterexample:
  "environ no_tzdata_platform ''TZ'' = None \<and>
   current_time_tz_orig no_tzdata_platform None = zone_pytz_Seoul \<and>
   timezone_o (get_current_time_orig no_tzdata_platform 0 None) = ''Asia/Seoul''"
  by (simp add: get_current_time_orig_def current_time_tz_orig_def Let_def no_tzdata_facts
      sample_local_timezone zone_pytz_Seoul_def)

text \<open>
  C9, amended. With the timezone argument absent or empty, \<^verbatim>\<open>get_timezone\<close> and the
  optimized \<^verbatim>\<open>get_current_time\<close> resolve the name \<^verbatim>\<open>LOCAL_TZ_NAME\<close>, which is the
  environment's \<^verbatim>\<open>TZ\<close>, and \<^verbatim>\<open>"UTC"\<close> when \<^verbatim>\<open>TZ\<close> is unset: they return the zone zoneinfo
  builds for that name, and zoneinfo's UTC when zoneinfo rejects the name. The original
  \<^verbatim>\<open>get_current_time\<close> uses \<^verbatim>\<open>local_timezone\<close>: the zone zoneinfo builds for that same
  name; when zoneinfo rejects the name, the pytz zone of the name tzlocal reports; and
  pytz's UTC when tzlocal reports none or pytz rejects it.
\<close>

theorem default_timezone_used:
  "(environ P ''TZ'' = None \<longrightarrow> LOCAL_TZ_NAME P = ''UTC'') \<and>
   (\<forall>v. environ P ''TZ'' = Some v \<longrightarrow> LOCAL_TZ_NAME P = v) \<and>
   fst (get_timezone P (run P init_state calls) None) =
     fst (get_timezone P (run P init_state calls) (Some (LOCAL_TZ_NAME P))) \<and>
   fst (get_timezone P (run P init_state calls) (Some [])) =
     fst (get_timezone P (run P init_state calls) (Some (LOCAL_TZ_NAME P))) \<and>
   fst (get_current_time P clock (run P init_state calls) None) =
     fst (get_current_time P clock (run P init_state calls) (Some (LOCAL_TZ_NAME P))) \<and>
   (\<forall>z. ZoneInfo P (LOCAL_TZ_NAME P) = Some z \<or>
          (ZoneInfo P (LOCAL_TZ_NAME P) = None \<and> ZoneInfo P ''UTC'' = Some z) \<longrightarrow>
      fst (get_timezone P (run P init_state calls) None) = Inr z \<and>
      fst (get_timezone P (run P init_state calls) (Some [])) = Inr z \<and>
      (\<exists>r. fst (get_current_time P clock (run P init_state calls) None) = Inr r \<and>
           timezone r = tz_str z \<and> iso8601 r = datetime_now clock z) \<and>
      (\<exists>r. fst (get_current_time P clock (run P init_state calls) (Some [])) = Inr r \<and>
           timezone r = tz_str z \<and> iso8601 r = datetime_now clock z)) \<and>
   current_time_tz_orig P None = local_timezone P \<and>
   current_time_tz_orig P (Some []) = local_timezone P \<and>
   timezone_o (get_current_time_orig P clock None) = tz_str (local_timezone P) \<and>
   (\<forall>z. ZoneInfo P (LOCAL_TZ_NAME P) = Some z \<longrightarrow> local_timezone P = z) \<and>
   (\<forall>n z. ZoneInfo P (LOCAL_TZ_NAME P) = None \<longrightarrow> get_localzone_name P = Some n \<longrightarrow>
      pytz_timezone P n = Some z \<longrightarrow> local_timezone P = z) \<and>
   (ZoneInfo P (LOCAL_TZ_NAME P) = None \<longrightarrow>
    get_localzone_name P = None \<or>
      (\<exists>n. get_localzone_name P = Some n \<and> pytz_timezone P n = None) \<longrightarrow>
      local_timezone P = pytz_UTC P)"
proof -
  let ?s = "run P init_state calls"
  have ok: "cache_ok P ?s" by (rule reachable_ok)
  have e: "effective P None = LOCAL_TZ_NAME P" "effective P (Some []) = LOCAL_TZ_NAME P"
    "effective P (Some (LOCAL_TZ_NAME P)) = LOCAL_TZ_NAME P"
    by (simp_all add: effective_def)
  have 1: "environ P ''TZ'' = None \<longrightarrow> LOCAL_TZ_NAME P = ''UTC''"
    by (simp add: LOCAL_TZ_NAME_def)
  have 2: "\<forall>v. environ P ''TZ'' = Some v \<longrightarrow> LOCAL_TZ_NAME P = v"
    by (simp add: LOCAL_TZ_NAME_def)
  have 3: "fst (get_timezone P ?s None) = fst (get_timezone P ?s (Some (LOCAL_TZ_NAME P)))"
    by (simp add: get_timezone_outcome[OF ok] e)
  have 4: "fst (get_timezone P ?s (Some [])) = fst (get_timezone P ?s (Some (LOCAL_TZ_NAME P)))"
    by (simp add: get_timezone_outcome[OF ok] e)
  have 5: "fst (get_current_time P clock ?s None) =
      fst (get_current_time P clock ?s (Some (LOCAL_TZ_NAME P)))"
    by (simp add: get_current_time_outcome[OF ok] e)
  have 6: "\<forall>z. ZoneInfo P (LOCAL_TZ_NAME P) = Some z \<or>
          (ZoneInfo P (LOCAL_TZ_NAME P) = None \<and> ZoneInfo P ''UTC'' = Some z) \<longrightarrow>
      fst (get_timezone P ?s None) = Inr z \<and>
      fst (get_timezone P ?s (Some [])) = Inr z \<and>
      (\<exists>r. fst (get_current_time P clock ?s None) = Inr r \<and>
           timezone r = tz_str z \<and> iso8601 r = datetime_now clock z) \<and>
      (\<exists>r. fst (get_current_time P clock ?s (Some [])) = Inr r \<and>
           timezone r = tz_str z \<and> iso8601 r = datetime_now clock z)"
  proof (intro allI impI)
    fix z
    assume "ZoneInfo P (LOCAL_TZ_NAME P) = Some z \<or>
          (ZoneInfo P (LOCAL_TZ_NAME P) = None \<and> ZoneInfo P ''UTC'' = Some z)"
    then have r: "resolve_name P (LOCAL_TZ_NAME P) = Inr z"
      by (auto simp: resolve_name_def)
    show "fst (get_timezone P ?s None) = Inr z \<and>
      fst (get_timezone P ?s (Some [])) = Inr z \<and>
      (\<exists>r. fst (get_current_time P clock ?s None) = Inr r \<and>
           timezone r = tz_str z \<and> iso8601 r = datetime_now clock z) \<and>
      (\<exists>r. fst (get_current_time P clock ?s (Some [])) = Inr r \<and>
           timezone r = tz_str z \<and> iso8601 r = datetime_now clock z)"
      by (simp add: get_timezone_outcome[OF ok] get_current_time_outcome[OF ok] e r)
  qed
  have 7: "current_time_tz_orig P None = local_timezone P"
    "current_time_tz_orig P (Some []) = local_timezone P"
    by (simp_all add: current_time_tz_orig_def)
  have 8: "timezone_o (get_current_time_orig P clock None) = tz_str (local_timezone P)"
    by (simp add: get_current_time_orig_def Let_def 7)
  have 9: "\<forall>z. ZoneInfo P (LOCAL_TZ_NAME P) = Some z \<longrightarrow> local_timezone P = z"
    by (simp add: local_timezone_def get_local_timezone_def LOCAL_TZ_NAME_def)
  have 10: "\<forall>n z. ZoneInfo P (LOCAL_TZ_NAME P) = None \<longrightarrow> get_localzone_name P = Some n \<longrightarrow>
      pytz_timezone P n = Some z \<longrightarrow> local_timezone P = z"
    by (simp add: local_timezone_def get_local_timezone_def LOCAL_TZ_NAME_def)
  have 11: "ZoneInfo P (LOCAL_TZ_NAME P) = None \<longrightarrow>
    get_localzone_name P = None \<or>
      (\<exists>n. get_localzone_name P = Some n \<and> pytz_timezone P n = None) \<longrightarrow>
      local_timezone P = pytz_UTC P"
    by (auto simp: local_timezone_def get_local_timezone_def LOCAL_TZ_NAME_def)
  from 1 2 3 4 5 6 7 8 9 10 11 show ?thesis by blast
qed

theorem default_timezone_used_witness:
  "LOCAL_TZ_NAME sample_platform = ''UTC'' \<and>
   fst (get_timezone sample_platform (run sample_platform init_state [Some ''Asia/Seoul'']) None)
     = Inr zone_UTC \<and>
   (\<exists>r. fst (get_current_time sample_platform 0
              (run sample_platform init_state [Some ''Asia/Seoul'']) None) = Inr r \<and>
        timezone r = ''UTC'') \<and>
   local_timezone sample_platform = zone_UTC \<and>
   LOCAL_TZ_NAME seoul_platform = ''Asia/Seoul'' \<and>
   fst (get_timezone seoul_platform (run seoul_platform init_state [Some ''UTC'']) None)
     = Inr zone_Seoul \<and>
   (\<exists>r. fst (get_current_time seoul_platform 0 (run seoul_platform init_state [Some ''UTC'']) None)
          = Inr r \<and> timezone r = ''Asia/Seoul'') \<and>
   local_timezone seoul_platform = zone_Seoul \<and>
   fst (get_timezone bad_tz_platform (run bad_tz_platform init_state []) (Some [])) = Inr zone_UTC \<and>
   local_timezone bad_tz_platform = zone_pytz_UTC \<and>
   local_timezone no_tzdata_platform = zone_pytz_Seoul"
proof -
  note a = default_timezone_used[of sample_platform "[Some ''Asia/Seoul'']" 0]
  note b = default_timezone_used[of seoul_platform "[Some ''UTC'']" 0]
  note c = default_timezone_used[of bad_tz_platform "[]" 0]
  note d = default_timezone_used[of no_tzdata_platform "[]" 0]
  have la: "LOCAL_TZ_NAME sample_platform = ''UTC''" using a by (simp add: sample_ZoneInfo)
  have lb: "LOCAL_TZ_NAME seoul_platform = ''Asia/Seoul''" using b by (simp add: seoul_ZoneInfo)
  have lc: "LOCAL_TZ_NAME bad_tz_platform = ''Mars/Phobos''" using c by (simp add: bad_tz_facts)
  have ld: "LOCAL_TZ_NAME no_tzdata_platform = ''UTC''" using d by (simp add: no_tzdata_facts)
  have za: "ZoneInfo sample_platform (LOCAL_TZ_NAME sample_platform) = Some zone_UTC"
    by (simp add: la sample_ZoneInfo)
  have zb: "ZoneInfo seoul_platform (LOCAL_TZ_NAME seoul_platform) = Some zone_Seoul"
    by (simp add: lb seoul_ZoneInfo sample_ZoneInfo)
  have zc: "ZoneInfo bad_tz_platform (LOCAL_TZ_NAME bad_tz_platform) = None"
    "ZoneInfo bad_tz_platform ''UTC'' = Some zone_UTC"
    "get_localzone_name bad_tz_platform = None"
    by (simp_all add: lc bad_tz_facts sample_ZoneInfo)
  have zd: "ZoneInfo no_tzdata_platform (LOCAL_TZ_NAME no_tzdata_platform) = None"
    "get_localzone_name no_tzdata_platform = Some ''Asia/Seoul''"
    "pytz_timezone no_tzdata_platform ''Asia/Seoul'' = Some zone_pytz_Seoul"
    by (simp_all add: no_tzdata_facts)
  have s: "tz_str zone_Seoul = ''Asia/Seoul''" by (simp add: zone_Seoul_def)
  have A: "fst (get_timezone sample_platform (run sample_platform init_state [Some ''Asia/Seoul''])
      None) = Inr zone_UTC"
    "\<exists>r. fst (get_current_time sample_platform 0
        (run sample_platform init_state [Some ''Asia/Seoul'']) None) = Inr r \<and>
      timezone r = tz_str zone_UTC \<and> iso8601 r = datetime_now 0 zone_UTC"
    "local_timezone sample_platform = zone_UTC"
    using a za by blast+
  have u: "tz_str zone_UTC = ''UTC''" by (simp add: zone_UTC_def)
  have B: "fst (get_timezone seoul_platform (run seoul_platform init_state [Some ''UTC'']) None)
     = Inr zone_Seoul"
    "\<exists>r. fst (get_current_time seoul_platform 0 (run seoul_platform init_state [Some ''UTC''])
        None) = Inr r \<and> timezone r = tz_str zone_Seoul \<and> iso8601 r = datetime_now 0 zone_Seoul"
    "local_timezone seoul_platform = zone_Seoul"
    using b zb by blast+
  have C: "fst (get_timezone bad_tz_platform (run bad_tz_platform init_state []) (Some [])) =
      Inr zone_UTC" "local_timezone bad_tz_platform = pytz_UTC bad_tz_platform"
    using c zc by blast+
  have D: "local_timezone no_tzdata_platform = zone_pytz_Seoul"
    using d zd by blast
  from la lb A B C D s u show ?thesis by (auto simp: bad_tz_facts)
qed

text \<open>
  C10. When \<^verbatim>\<open>convert_time\<close> returns a conversion and the offset of the source datetime
  or of the target datetime is zero, \<^verbatim>\<open>utc_offset_diff_hours\<close> is \<^verbatim>\<open>None\<close>, in both
  variants and from every state.
\<close>

theorem zero_offset_diff_is_None:
  "(fst (convert_time P today s src time tgt) = Inr (Converted r) \<longrightarrow>
      dt_off (source_time r) = 0 \<or> dt_off (target_time r) = 0 \<longrightarrow>
      utc_offset_diff_hours r = None) \<and>
   (convert_time_orig P today src time tgt = Inr r' \<longrightarrow>
      dt_off (source_time_o r') = 0 \<or> dt_off (target_time_o r') = 0 \<longrightarrow>
      utc_offset_diff_hours_o r' = None)"
proof (intro conjI impI)
  assume c: "fst (convert_time P today s src time tgt) = Inr (Converted r)"
    and z: "dt_off (source_time r) = 0 \<or> dt_off (target_time r) = 0"
  from c obtain z1 z2 where "convert_time_try P today time z1 z2 = Converted r"
    by (auto simp: convert_time_def split: prod.splits sum.splits)
  from diff_hours_of_offsets[OF this] z show "utc_offset_diff_hours r = None" by auto
next
  assume c: "convert_time_orig P today src time tgt = Inr r'"
    and z: "dt_off (source_time_o r') = 0 \<or> dt_off (target_time_o r') = 0"
  then show "utc_offset_diff_hours_o r' = None"
    by (auto simp: convert_time_orig_def Let_def utcoffset_def split: sum.splits)
qed

theorem zero_offset_diff_is_None_witness:
  "(\<exists>r. fst (convert_time sample_platform 20761 init_state ''UTC'' ''09:00'' ''Asia/Seoul'') =
          Inr (Converted r) \<and>
        dt_off (source_time r) = 0 \<and> utc_offset_diff_hours r = None) \<and>
   (\<exists>r'. convert_time_orig sample_platform 20761 ''UTC'' ''09:00'' ''Asia/Seoul'' = Inr r' \<and>
        dt_off (source_time_o r') = 0 \<and> utc_offset_diff_hours_o r' = None)"
proof -
  obtain r where r: "fst (convert_time sample_platform 20761 init_state ''UTC'' ''09:00''
      ''Asia/Seoul'') = Inr (Converted r)" and r0: "dt_off (source_time r) = 0"
    by (simp add: convert_time_outcome[OF cache_ok_init] sample_resolve utc_to_seoul)
  obtain r' where r': "convert_time_orig sample_platform 20761 ''UTC'' ''09:00'' ''Asia/Seoul'' =
      Inr r'" and r0': "dt_off (source_time_o r') = 0"
    by (simp add: orig_utc_to_seoul)
  from zero_offset_diff_is_None[of sample_platform 20761 init_state "''UTC''" "''09:00''"
      "''Asia/Seoul''" r r'] r r0 r' r0'
  show ?thesis by auto
qed

end
